theory Spec2Isabelle
  imports Complex_Main "HOL-Library.Word"
begin

unbundle bit_operations_syntax

section \<open>Platform types\<close>

text \<open>
  The firmware is C for an STM32L4 (32-bit \<open>int\<close>, two's complement) running FreeRTOS.
  Fixed-width integers are machine words. \<open>HAL_StatusTypeDef\<close> is the status enumeration
  of the ST HAL (\<open>stm32l4xx_hal_def.h\<close>), which every driver function returns.

  C \<open>float\<close> values are modelled as real numbers: a float constant is the decimal it is
  written as, and float arithmetic is exact arithmetic. The rounding of binary32 is not
  modelled; the properties below are about which constant is selected, which bytes are
  decoded and which state is updated.
\<close>

type_synonym uint8_t = "8 word"
type_synonym uint16_t = "16 word"
type_synonym uint32_t = "32 word"
type_synonym c_float = real

datatype HAL_StatusTypeDef = HAL_OK | HAL_ERROR | HAL_BUSY | HAL_TIMEOUT

section \<open>lsm6dsl.h: types and constants\<close>

record LSM6DSL_Config_t =
  accel_odr :: uint8_t
  accel_fs :: uint8_t
  gyro_odr :: uint8_t
  gyro_fs :: uint8_t
  fifo_enable :: uint8_t

record LSM6DSL_Data_t =
  d_accel_x :: c_float
  d_accel_y :: c_float
  d_accel_z :: c_float
  d_gyro_x :: c_float
  d_gyro_y :: c_float
  d_gyro_z :: c_float
  d_temperature :: c_float
  d_timestamp :: uint32_t
  data_ready :: uint8_t

definition LSM6DSL_WHO_AM_I :: uint8_t where [simp]: "LSM6DSL_WHO_AM_I = 0x0F"
definition LSM6DSL_CTRL1_XL :: uint8_t where [simp]: "LSM6DSL_CTRL1_XL = 0x10"
definition LSM6DSL_CTRL2_G :: uint8_t where [simp]: "LSM6DSL_CTRL2_G = 0x11"
definition LSM6DSL_CTRL3_C :: uint8_t where [simp]: "LSM6DSL_CTRL3_C = 0x12"
definition LSM6DSL_STATUS_REG :: uint8_t where [simp]: "LSM6DSL_STATUS_REG = 0x1E"
definition LSM6DSL_OUT_TEMP_L :: uint8_t where [simp]: "LSM6DSL_OUT_TEMP_L = 0x20"

definition LSM6DSL_WHO_AM_I_VALUE :: uint8_t where [simp]: "LSM6DSL_WHO_AM_I_VALUE = 0x6A"

definition LSM6DSL_XL_ODR_POWER_DOWN :: uint8_t where [simp]: "LSM6DSL_XL_ODR_POWER_DOWN = 0x00"
definition LSM6DSL_XL_ODR_104_HZ :: uint8_t where [simp]: "LSM6DSL_XL_ODR_104_HZ = 0x40"

definition LSM6DSL_XL_FS_2G :: uint8_t where [simp]: "LSM6DSL_XL_FS_2G = 0x00"
definition LSM6DSL_XL_FS_16G :: uint8_t where [simp]: "LSM6DSL_XL_FS_16G = 0x04"
definition LSM6DSL_XL_FS_4G :: uint8_t where [simp]: "LSM6DSL_XL_FS_4G = 0x08"
definition LSM6DSL_XL_FS_8G :: uint8_t where [simp]: "LSM6DSL_XL_FS_8G = 0x0C"

definition LSM6DSL_GY_ODR_POWER_DOWN :: uint8_t where [simp]: "LSM6DSL_GY_ODR_POWER_DOWN = 0x00"
definition LSM6DSL_GY_ODR_104_HZ :: uint8_t where [simp]: "LSM6DSL_GY_ODR_104_HZ = 0x40"

definition LSM6DSL_GY_FS_125_DPS :: uint8_t where [simp]: "LSM6DSL_GY_FS_125_DPS = 0x02"
definition LSM6DSL_GY_FS_250_DPS :: uint8_t where [simp]: "LSM6DSL_GY_FS_250_DPS = 0x00"
definition LSM6DSL_GY_FS_500_DPS :: uint8_t where [simp]: "LSM6DSL_GY_FS_500_DPS = 0x04"
definition LSM6DSL_GY_FS_1000_DPS :: uint8_t where [simp]: "LSM6DSL_GY_FS_1000_DPS = 0x08"
definition LSM6DSL_GY_FS_2000_DPS :: uint8_t where [simp]: "LSM6DSL_GY_FS_2000_DPS = 0x0C"

definition LSM6DSL_STATUS_GDA :: uint8_t where [simp]: "LSM6DSL_STATUS_GDA = 0x02"
definition LSM6DSL_STATUS_XLDA :: uint8_t where [simp]: "LSM6DSL_STATUS_XLDA = 0x01"

section \<open>The environment of the driver\<close>

text \<open>
  Every register access of the driver is one call of \<open>LSM6DSL_ReadReg\<close> or
  \<open>LSM6DSL_WriteReg\<close>: take the I2C mutex (100 ms), run one HAL memory transfer, give the
  mutex back. What the mutex and the bus answer is not decided by the program, so the
  answer to the n-th register access is an input, \<open>bus_rsp w n\<close>: either the mutex was not
  obtained in time, or the transfer ran and the HAL returned a status and (for a read) the
  bytes received. \<open>reg_ops\<close> lists the register accesses made so far, oldest first; its
  length is the index of the next answer. The tick counter read by \<open>xTaskGetTickCount\<close>
  is an input of the same kind.

  The file-scope statics of \<open>lsm6dsl.c\<close> are the two cached sensitivities.
\<close>

datatype reg_op = RegRead uint8_t nat | RegWrite uint8_t "uint8_t list"

datatype bus_resp = MutexTimeout | Transfer HAL_StatusTypeDef "uint8_t list"

record driver =
  bus_rsp :: "nat \<Rightarrow> bus_resp"
  reg_ops :: "reg_op list"
  tick_src :: "nat \<Rightarrow> uint32_t"
  tick_n :: nat
  accel_sensitivity :: c_float
  gyro_sensitivity :: c_float

definition xTaskGetTickCount :: "'a driver_scheme \<Rightarrow> uint32_t \<times> 'a driver_scheme" where
  "xTaskGetTickCount w = (tick_src w (tick_n w), w\<lparr>tick_n := Suc (tick_n w)\<rparr>)"

text \<open>
  The HAL stores the bytes it received at the start of the caller's buffer, at most
  \<open>len\<close> of them; the rest of the buffer keeps its contents.
\<close>

definition buffer_fill :: "uint8_t list \<Rightarrow> nat \<Rightarrow> uint8_t list \<Rightarrow> uint8_t list" where
  "buffer_fill rx len data = take len rx @ drop (length (take len rx)) data"

definition LSM6DSL_ReadReg ::
  "uint8_t \<Rightarrow> uint8_t list \<Rightarrow> nat \<Rightarrow> 'a driver_scheme
     \<Rightarrow> HAL_StatusTypeDef \<times> uint8_t list \<times> 'a driver_scheme" where
  "LSM6DSL_ReadReg reg_addr data len w =
     (let w' = w\<lparr>reg_ops := reg_ops w @ [RegRead reg_addr len]\<rparr> in
      case bus_rsp w (length (reg_ops w)) of
        MutexTimeout \<Rightarrow> (HAL_TIMEOUT, data, w')
      | Transfer status rx \<Rightarrow> (status, buffer_fill rx len data, w'))"

definition LSM6DSL_WriteReg ::
  "uint8_t \<Rightarrow> uint8_t list \<Rightarrow> nat \<Rightarrow> 'a driver_scheme
     \<Rightarrow> HAL_StatusTypeDef \<times> 'a driver_scheme" where
  "LSM6DSL_WriteReg reg_addr data len w =
     (let w' = w\<lparr>reg_ops := reg_ops w @ [RegWrite reg_addr (take len data)]\<rparr> in
      case bus_rsp w (length (reg_ops w)) of
        MutexTimeout \<Rightarrow> (HAL_TIMEOUT, w')
      | Transfer status rx \<Rightarrow> (status, w'))"

section \<open>lsm6dsl.c\<close>

definition LSM6DSL_UpdateSensitivity ::
  "uint8_t \<Rightarrow> uint8_t \<Rightarrow> 'a driver_scheme \<Rightarrow> 'a driver_scheme" where
  "LSM6DSL_UpdateSensitivity a_fs g_fs w =
     (let w = w\<lparr>accel_sensitivity :=
                  (if a_fs = LSM6DSL_XL_FS_2G then 61 / 1000
                   else if a_fs = LSM6DSL_XL_FS_4G then 122 / 1000
                   else if a_fs = LSM6DSL_XL_FS_8G then 244 / 1000
                   else if a_fs = LSM6DSL_XL_FS_16G then 488 / 1000
                   else 61 / 1000)\<rparr>
      in w\<lparr>gyro_sensitivity :=
              (if g_fs = LSM6DSL_GY_FS_125_DPS then 4375 / 1000
               else if g_fs = LSM6DSL_GY_FS_250_DPS then 875 / 100
               else if g_fs = LSM6DSL_GY_FS_500_DPS then 1750 / 100
               else if g_fs = LSM6DSL_GY_FS_1000_DPS then 35
               else if g_fs = LSM6DSL_GY_FS_2000_DPS then 70
               else 875 / 100)\<rparr>)"

definition LSM6DSL_ReadWhoAmI ::
  "uint8_t \<Rightarrow> 'a driver_scheme \<Rightarrow> HAL_StatusTypeDef \<times> uint8_t \<times> 'a driver_scheme" where
  "LSM6DSL_ReadWhoAmI who_am_i w =
     (let (status, buf, w) = LSM6DSL_ReadReg LSM6DSL_WHO_AM_I [who_am_i] 1 w
      in (status, buf ! 0, w))"

definition LSM6DSL_GetStatus ::
  "uint8_t \<Rightarrow> 'a driver_scheme \<Rightarrow> HAL_StatusTypeDef \<times> uint8_t \<times> 'a driver_scheme" where
  "LSM6DSL_GetStatus status_reg w =
     (let (status, buf, w) = LSM6DSL_ReadReg LSM6DSL_STATUS_REG [status_reg] 1 w
      in (status, buf ! 0, w))"

definition LSM6DSL_SoftReset :: "'a driver_scheme \<Rightarrow> HAL_StatusTypeDef \<times> 'a driver_scheme" where
  "LSM6DSL_SoftReset w = LSM6DSL_WriteReg LSM6DSL_CTRL3_C [0x01] 1 w"

text \<open>
  \<open>vTaskDelay\<close> after the soft reset only lets time pass; the tick counter is an input,
  so the delay leaves no trace in the state.
\<close>

definition LSM6DSL_Init ::
  "LSM6DSL_Config_t \<Rightarrow> 'a driver_scheme \<Rightarrow> HAL_StatusTypeDef \<times> 'a driver_scheme" where
  "LSM6DSL_Init config w =
     (let (status, who_am_i, w) = LSM6DSL_ReadWhoAmI 0 w in
      if status \<noteq> HAL_OK \<or> who_am_i \<noteq> LSM6DSL_WHO_AM_I_VALUE then (HAL_ERROR, w)
      else
        let (status, w) = LSM6DSL_SoftReset w in
        if status \<noteq> HAL_OK then (status, w)
        else
          let reg_value = accel_odr config OR accel_fs config;
              (status, w) = LSM6DSL_WriteReg LSM6DSL_CTRL1_XL [reg_value] 1 w in
          if status \<noteq> HAL_OK then (status, w)
          else
            let reg_value = gyro_odr config OR gyro_fs config;
                (status, w) = LSM6DSL_WriteReg LSM6DSL_CTRL2_G [reg_value] 1 w in
            if status \<noteq> HAL_OK then (status, w)
            else
              let reg_value = 0x40;
                  (status, w) = LSM6DSL_WriteReg LSM6DSL_CTRL3_C [reg_value] 1 w in
              if status \<noteq> HAL_OK then (status, w)
              else (HAL_OK, LSM6DSL_UpdateSensitivity (accel_fs config) (gyro_fs config) w))"

text \<open>
  \<open>(int16_t)((raw_data[hi] << 8) | raw_data[lo])\<close>: both bytes are promoted to 32-bit
  \<open>int\<close>, the high one is shifted, and the conversion to \<open>int16_t\<close> keeps the low 16 bits
  read as two's complement.
\<close>

definition raw_int16 :: "uint8_t \<Rightarrow> uint8_t \<Rightarrow> int" where
  "raw_int16 hi lo =
     sint (ucast (push_bit 8 (ucast hi :: uint32_t) OR (ucast lo :: uint32_t)) :: uint16_t)"

definition LSM6DSL_ReadData ::
  "LSM6DSL_Data_t \<Rightarrow> 'a driver_scheme \<Rightarrow> HAL_StatusTypeDef \<times> LSM6DSL_Data_t \<times> 'a driver_scheme" where
  "LSM6DSL_ReadData data w =
     (let (status, status_reg, w) = LSM6DSL_GetStatus 0 w in
      if status \<noteq> HAL_OK then (status, data, w)
      else
        let data = data\<lparr>data_ready :=
                     (if status_reg AND (LSM6DSL_STATUS_XLDA OR LSM6DSL_STATUS_GDA) \<noteq> 0
                      then 1 else 0)\<rparr> in
        if data_ready data = 0 then (HAL_OK, data, w)
        else
          let (status, raw_data, w) = LSM6DSL_ReadReg LSM6DSL_OUT_TEMP_L (replicate 14 0) 14 w in
          if status \<noteq> HAL_OK then (status, data, w)
          else
            let raw_temp = raw_int16 (raw_data ! 1) (raw_data ! 0);
                raw_gyro0 = raw_int16 (raw_data ! 3) (raw_data ! 2);
                raw_gyro1 = raw_int16 (raw_data ! 5) (raw_data ! 4);
                raw_gyro2 = raw_int16 (raw_data ! 7) (raw_data ! 6);
                raw_accel0 = raw_int16 (raw_data ! 9) (raw_data ! 8);
                raw_accel1 = raw_int16 (raw_data ! 11) (raw_data ! 10);
                raw_accel2 = raw_int16 (raw_data ! 13) (raw_data ! 12);
                data = data\<lparr>d_temperature := 25 + real_of_int raw_temp / 256\<rparr>;
                data = data\<lparr>d_accel_x := real_of_int raw_accel0 * accel_sensitivity w * (980665 / 100000) / 1000\<rparr>;
                data = data\<lparr>d_accel_y := real_of_int raw_accel1 * accel_sensitivity w * (980665 / 100000) / 1000\<rparr>;
                data = data\<lparr>d_accel_z := real_of_int raw_accel2 * accel_sensitivity w * (980665 / 100000) / 1000\<rparr>;
                data = data\<lparr>d_gyro_x := real_of_int raw_gyro0 * gyro_sensitivity w * (314159 / 100000) / (180 * 1000)\<rparr>;
                data = data\<lparr>d_gyro_y := real_of_int raw_gyro1 * gyro_sensitivity w * (314159 / 100000) / (180 * 1000)\<rparr>;
                data = data\<lparr>d_gyro_z := real_of_int raw_gyro2 * gyro_sensitivity w * (314159 / 100000) / (180 * 1000)\<rparr>;
                (now, w) = xTaskGetTickCount w;
                data = data\<lparr>d_timestamp := now\<rparr>
            in (HAL_OK, data, w))"

definition LSM6DSL_Enable :: "uint8_t \<Rightarrow> 'a driver_scheme \<Rightarrow> HAL_StatusTypeDef \<times> 'a driver_scheme" where
  "LSM6DSL_Enable enable w =
     (if enable \<noteq> 0 then
        let reg_value = LSM6DSL_XL_ODR_104_HZ OR LSM6DSL_XL_FS_2G;
            (status, w) = LSM6DSL_WriteReg LSM6DSL_CTRL1_XL [reg_value] 1 w in
        if status \<noteq> HAL_OK then (status, w)
        else
          let reg_value = LSM6DSL_GY_ODR_104_HZ OR LSM6DSL_GY_FS_250_DPS
          in LSM6DSL_WriteReg LSM6DSL_CTRL2_G [reg_value] 1 w
      else
        let reg_value = LSM6DSL_XL_ODR_POWER_DOWN;
            (status, w) = LSM6DSL_WriteReg LSM6DSL_CTRL1_XL [reg_value] 1 w in
        if status \<noteq> HAL_OK then (status, w)
        else
          let reg_value = LSM6DSL_GY_ODR_POWER_DOWN
          in LSM6DSL_WriteReg LSM6DSL_CTRL2_G [reg_value] 1 w)"

section \<open>main.h and sensor_acq.h: types\<close>

record SensorData_t =
  timestamp :: uint32_t
  accel_x :: c_float
  accel_y :: c_float
  accel_z :: c_float
  gyro_x :: c_float
  gyro_y :: c_float
  gyro_z :: c_float
  pressure :: c_float
  temperature :: c_float
  humidity :: c_float
  data_valid :: uint8_t

datatype SensorAcqState_t =
  SENSOR_ACQ_INIT | SENSOR_ACQ_RUNNING | SENSOR_ACQ_ERROR | SENSOR_ACQ_STOPPED

record SensorAcqStats_t =
  total_samples :: uint32_t
  error_count :: uint32_t
  last_sample_time :: uint32_t
  sample_rate :: c_float
  state :: SensorAcqState_t

definition SENSOR_MAX_RETRY_COUNT :: uint8_t where [simp]: "SENSOR_MAX_RETRY_COUNT = 3"

text \<open>What \<open>memset(p, 0, sizeof *p)\<close> and \<open>= {0}\<close> leave in each struct.\<close>

definition SensorData_zero :: SensorData_t where
  "SensorData_zero =
     \<lparr>timestamp = 0, accel_x = 0, accel_y = 0, accel_z = 0, gyro_x = 0, gyro_y = 0, gyro_z = 0,
      pressure = 0, temperature = 0, humidity = 0, data_valid = 0\<rparr>"

definition LSM6DSL_Data_zero :: LSM6DSL_Data_t where
  "LSM6DSL_Data_zero =
     \<lparr>d_accel_x = 0, d_accel_y = 0, d_accel_z = 0, d_gyro_x = 0, d_gyro_y = 0, d_gyro_z = 0,
      d_temperature = 0, d_timestamp = 0, data_ready = 0\<rparr>"

definition SensorAcqStats_zero :: SensorAcqStats_t where
  "SensorAcqStats_zero =
     \<lparr>total_samples = 0, error_count = 0, last_sample_time = 0, sample_rate = 0,
      state = SENSOR_ACQ_INIT\<rparr>"

section \<open>The state of the acquisition module\<close>

text \<open>
  The state extends the driver's with the file-scope statics of \<open>sensor_acq.c\<close>, the two
  function-scope statics of \<open>SensorAcq_UpdateStats\<close>, the locals of \<open>SensorAcqTask\<close> that
  live across iterations of its loop, and the rest of the environment: the values
  \<open>rand\<close> returns, whether the n-th \<open>xQueueSend\<close> on \<open>xSensorDataQueue\<close> is accepted within
  its 10 ms wait (that depends on the consumer) with the samples accepted so far, the
  messages handed to the UART with the tick printed in each, and the nesting depth of
  critical sections that the FreeRTOS port keeps.
\<close>

record world = driver +
  rand_src :: "nat \<Rightarrow> nat"
  rand_n :: nat
  queue_rsp :: "nat \<Rightarrow> bool"
  queue_n :: nat
  queue_sent :: "SensorData_t list"
  uart_log :: "(string \<times> uint32_t) list"
  critical_nesting :: nat
  xSensorStats :: SensorAcqStats_t
  ucSensorEnabled :: uint8_t
  xIMUConfig :: LSM6DSL_Config_t
  last_stats_update :: uint32_t
  sample_count_in_period :: uint32_t
  xLastWakeTime :: uint32_t
  retry_count :: uint8_t

definition rand :: "world \<Rightarrow> nat \<times> world" where
  "rand w = (rand_src w (rand_n w), w\<lparr>rand_n := Suc (rand_n w)\<rparr>)"

definition xQueueSend :: "SensorData_t \<Rightarrow> world \<Rightarrow> bool \<times> world" where
  "xQueueSend item w =
     (let w' = w\<lparr>queue_n := Suc (queue_n w)\<rparr> in
      if queue_rsp w (queue_n w) then (True, w'\<lparr>queue_sent := queue_sent w @ [item]\<rparr>)
      else (False, w'))"

definition taskENTER_CRITICAL :: "world \<Rightarrow> world" where
  "taskENTER_CRITICAL w = w\<lparr>critical_nesting := Suc (critical_nesting w)\<rparr>"

definition taskEXIT_CRITICAL :: "world \<Rightarrow> world" where
  "taskEXIT_CRITICAL w = w\<lparr>critical_nesting := critical_nesting w - 1\<rparr>"

section \<open>sensor_acq.c\<close>

definition SensorAcq_LogError :: "string \<Rightarrow> world \<Rightarrow> world" where
  "SensorAcq_LogError error_msg w =
     (let (now, w) = xTaskGetTickCount w
      in w\<lparr>uart_log := uart_log w @ [(error_msg, now)]\<rparr>)"

definition set_state :: "SensorAcqState_t \<Rightarrow> world \<Rightarrow> world" where
  "set_state st w = w\<lparr>xSensorStats := (xSensorStats w)\<lparr>state := st\<rparr>\<rparr>"

definition SensorAcq_Init :: "world \<Rightarrow> HAL_StatusTypeDef \<times> world" where
  "SensorAcq_Init w =
     (let w = w\<lparr>xSensorStats := SensorAcqStats_zero\<rparr>;
          w = set_state SENSOR_ACQ_INIT w;
          w = w\<lparr>xIMUConfig :=
                  \<lparr>accel_odr = LSM6DSL_XL_ODR_104_HZ, accel_fs = LSM6DSL_XL_FS_2G,
                   gyro_odr = LSM6DSL_GY_ODR_104_HZ, gyro_fs = LSM6DSL_GY_FS_250_DPS,
                   fifo_enable = 0\<rparr>\<rparr>;
          (status, w) = LSM6DSL_Init (xIMUConfig w) w
      in if status \<noteq> HAL_OK then
           (status, set_state SENSOR_ACQ_ERROR (SensorAcq_LogError ''LSM6DSL initialization failed'' w))
         else (HAL_OK, set_state SENSOR_ACQ_INIT w))"

definition SensorAcq_ReadIMU ::
  "SensorData_t \<Rightarrow> world \<Rightarrow> HAL_StatusTypeDef \<times> SensorData_t \<times> world" where
  "SensorAcq_ReadIMU sensor_data w =
     (let (status, imu_data, w) = LSM6DSL_ReadData LSM6DSL_Data_zero w in
      if status = HAL_OK \<and> data_ready imu_data \<noteq> 0 then
        let sensor_data = sensor_data\<lparr>accel_x := d_accel_x imu_data\<rparr>;
            sensor_data = sensor_data\<lparr>accel_y := d_accel_y imu_data\<rparr>;
            sensor_data = sensor_data\<lparr>accel_z := d_accel_z imu_data\<rparr>;
            sensor_data = sensor_data\<lparr>gyro_x := d_gyro_x imu_data\<rparr>;
            sensor_data = sensor_data\<lparr>gyro_y := d_gyro_y imu_data\<rparr>;
            sensor_data = sensor_data\<lparr>gyro_z := d_gyro_z imu_data\<rparr>;
            sensor_data = (if d_temperature imu_data \<noteq> 0
                           then sensor_data\<lparr>temperature := d_temperature imu_data\<rparr>
                           else sensor_data)
        in (status, sensor_data, w)
      else if status = HAL_OK \<and> data_ready imu_data = 0 then (HAL_OK, sensor_data, w)
      else (status, sensor_data, w))"

definition SensorAcq_ReadPressure ::
  "SensorData_t \<Rightarrow> world \<Rightarrow> HAL_StatusTypeDef \<times> SensorData_t \<times> world" where
  "SensorAcq_ReadPressure sensor_data w =
     (let (r, w) = rand w
      in (HAL_OK,
          sensor_data\<lparr>pressure := 101325 / 100 + real_of_int (int (r mod 100) - 50) / 10\<rparr>,
          w))"

definition SensorAcq_ReadHumidity ::
  "SensorData_t \<Rightarrow> world \<Rightarrow> HAL_StatusTypeDef \<times> SensorData_t \<times> world" where
  "SensorAcq_ReadHumidity sensor_data w =
     (let (r, w) = rand w;
          sensor_data = sensor_data\<lparr>humidity := 45 + real_of_int (int (r mod 200) - 100) / 10\<rparr>
      in if temperature sensor_data = 0 then
           let (r, w) = rand w
           in (HAL_OK,
               sensor_data\<lparr>temperature := 22 + real_of_int (int (r mod 100) - 50) / 10\<rparr>,
               w)
         else (HAL_OK, sensor_data, w))"

definition SensorAcq_UpdateStats :: "uint32_t \<Rightarrow> world \<Rightarrow> world" where
  "SensorAcq_UpdateStats sample_time w =
     (let w = w\<lparr>xSensorStats := (xSensorStats w)\<lparr>total_samples := total_samples (xSensorStats w) + 1\<rparr>\<rparr>;
          w = w\<lparr>xSensorStats := (xSensorStats w)\<lparr>last_sample_time := sample_time\<rparr>\<rparr>;
          w = w\<lparr>sample_count_in_period := sample_count_in_period w + 1\<rparr>
      in if sample_time - last_stats_update w \<ge> 1000 then
           let w = w\<lparr>xSensorStats := (xSensorStats w)\<lparr>sample_rate :=
                         real (unat (sample_count_in_period w)) * 1000 /
                         real (unat (sample_time - last_stats_update w))\<rparr>\<rparr>;
               w = w\<lparr>last_stats_update := sample_time\<rparr>
           in w\<lparr>sample_count_in_period := 0\<rparr>
         else w)"

text \<open>
  \<open>SensorAcqTask\<close> never returns: a prologue, then \<open>for (;;)\<close>. The prologue and one
  iteration of the loop are functions on the state, and \<open>SensorAcqTask_cycles n\<close> is the
  state after the first \<open>n\<close> iterations. The part of an iteration that reads the sensors
  has a name of its own, so that "every read of this cycle succeeded" can be said of a state.
  \<open>vTaskDelayUntil\<close> advances \<open>xLastWakeTime\<close> by the period, 10 ticks at 100 Hz with a
  1 kHz tick.
\<close>

definition SensorAcqTask_entry :: "world \<Rightarrow> world" where
  "SensorAcqTask_entry w =
     (let w = w\<lparr>retry_count := 0\<rparr>;
          (now, w) = xTaskGetTickCount w;
          w = w\<lparr>xLastWakeTime := now\<rparr>;
          w = set_state SENSOR_ACQ_RUNNING w;
          w = w\<lparr>ucSensorEnabled := 1\<rparr>
      in SensorAcq_LogError ''SensorAcq task started'' w)"

definition SensorAcqTask_read_sensors ::
  "world \<Rightarrow> HAL_StatusTypeDef \<times> SensorData_t \<times> uint32_t \<times> world" where
  "SensorAcqTask_read_sensors w =
     (let (sample_start_time, w) = xTaskGetTickCount w;
          sensor_data = SensorData_zero\<lparr>timestamp := sample_start_time\<rparr>;
          (status, sensor_data, w) = SensorAcq_ReadIMU sensor_data w;
          (status, sensor_data, w) =
             (if status = HAL_OK then SensorAcq_ReadPressure sensor_data w
              else (status, sensor_data, w));
          (status, sensor_data, w) =
             (if status = HAL_OK then SensorAcq_ReadHumidity sensor_data w
              else (status, sensor_data, w))
      in (status, sensor_data, sample_start_time, w))"

definition count_error :: "world \<Rightarrow> world" where
  "count_error w =
     w\<lparr>xSensorStats := (xSensorStats w)\<lparr>error_count := error_count (xSensorStats w) + 1\<rparr>\<rparr>"

definition SensorAcqTask_cycle :: "world \<Rightarrow> world" where
  "SensorAcqTask_cycle w =
     (let w =
        (if ucSensorEnabled w \<noteq> 0 then
           let (status, sensor_data, sample_start_time, w) = SensorAcqTask_read_sensors w in
           if status = HAL_OK then
             let sensor_data = sensor_data\<lparr>data_valid := 1\<rparr>;
                 w = w\<lparr>retry_count := 0\<rparr>;
                 (sent, w) = xQueueSend sensor_data w;
                 w = (if \<not> sent then
                        count_error (SensorAcq_LogError ''Failed to send sensor data to queue'' w)
                      else w)
             in SensorAcq_UpdateStats sample_start_time w
           else
             let w = w\<lparr>retry_count := retry_count w + 1\<rparr>;
                 w = count_error w
             in if retry_count w \<ge> SENSOR_MAX_RETRY_COUNT then
                  let w = SensorAcq_LogError ''Max sensor read retries exceeded'' w;
                      w = set_state SENSOR_ACQ_ERROR w;
                      w = w\<lparr>retry_count := 0\<rparr>;
                      (status, w) = SensorAcq_Init w
                  in if status = HAL_OK then
                       SensorAcq_LogError ''Sensor reinitialized successfully''
                         (set_state SENSOR_ACQ_RUNNING w)
                     else w
                else w
         else w)
      in w\<lparr>xLastWakeTime := xLastWakeTime w + 10\<rparr>)"

fun SensorAcqTask_cycles :: "nat \<Rightarrow> world \<Rightarrow> world" where
  "SensorAcqTask_cycles 0 w = w"
| "SensorAcqTask_cycles (Suc n) w = SensorAcqTask_cycles n (SensorAcqTask_cycle w)"

text \<open>
  The two statistics functions are short straight-line code inside a critical section.
  Each is written as the list of its statements and run from left to right, so that the
  state in which each statement runs can be spoken of. The caller's \<open>SensorAcqStats_t\<close>
  objects are a memory indexed by address; \<open>NULL\<close> is no address of it.
\<close>

datatype stats_ptr = NULL | Ptr nat

type_synonym stats_mem = "nat \<Rightarrow> SensorAcqStats_t"

definition run_steps :: "('s \<Rightarrow> 's) list \<Rightarrow> 's \<Rightarrow> 's" where
  "run_steps steps s = fold (\<lambda>step. step) steps s"

definition SensorAcq_GetStats_steps ::
  "stats_ptr \<Rightarrow> (world \<times> stats_mem \<Rightarrow> world \<times> stats_mem) list" where
  "SensorAcq_GetStats_steps stats =
     (case stats of
        NULL \<Rightarrow> []
      | Ptr a \<Rightarrow>
          [\<lambda>(w, m). (taskENTER_CRITICAL w, m),
           \<lambda>(w, m). (w, m(a := xSensorStats w)),
           \<lambda>(w, m). (taskEXIT_CRITICAL w, m)])"

definition SensorAcq_GetStats :: "stats_ptr \<Rightarrow> world \<times> stats_mem \<Rightarrow> world \<times> stats_mem" where
  "SensorAcq_GetStats stats s = run_steps (SensorAcq_GetStats_steps stats) s"

definition SensorAcq_ResetStats_steps :: "(world \<Rightarrow> world) list" where
  "SensorAcq_ResetStats_steps =
     [taskENTER_CRITICAL,
      \<lambda>w. w\<lparr>xSensorStats := (xSensorStats w)\<lparr>total_samples := 0\<rparr>\<rparr>,
      \<lambda>w. w\<lparr>xSensorStats := (xSensorStats w)\<lparr>error_count := 0\<rparr>\<rparr>,
      \<lambda>w. w\<lparr>xSensorStats := (xSensorStats w)\<lparr>sample_rate := 0\<rparr>\<rparr>,
      taskEXIT_CRITICAL]"

definition SensorAcq_ResetStats :: "world \<Rightarrow> world" where
  "SensorAcq_ResetStats w = run_steps SensorAcq_ResetStats_steps w"

section \<open>Notions used to state the properties\<close>

text \<open>
  \<open>le_int16 lo hi\<close> is the number that two bytes denote as a little-endian signed 16-bit
  value, said arithmetically: the unsigned value \<open>lo + 256 * hi\<close>, less \<open>65536\<close> from
  \<open>32768\<close> on.
\<close>

definition le_int16 :: "uint8_t \<Rightarrow> uint8_t \<Rightarrow> int" where
  "le_int16 lo hi =
     (if uint lo + 256 * uint hi < 32768 then uint lo + 256 * uint hi
      else uint lo + 256 * uint hi - 65536)"

text \<open>
  A cycle fails when acquisition is enabled and not every sensor read of it succeeds.
  \<open>LSM6DSL_Init\<close> is the only reader of the WHO_AM_I register and reads it first, so the
  number of such reads in \<open>reg_ops\<close> is the number of driver initializations attempted.
\<close>

definition cycle_failed :: "world \<Rightarrow> bool" where
  "cycle_failed w \<longleftrightarrow>
     ucSensorEnabled w \<noteq> 0 \<and> fst (SensorAcqTask_read_sensors w) \<noteq> HAL_OK"

definition init_attempts :: "'a driver_scheme \<Rightarrow> nat" where
  "init_attempts w = length (filter (\<lambda>op. op = RegRead LSM6DSL_WHO_AM_I 1) (reg_ops w))"


text \<open>
  A run of calls of \<open>LSM6DSL_Enable\<close>, one per list element, whatever each returns; and
  the register accesses \<open>LSM6DSL_Enable\<close> is meant to make: one-byte writes to the two
  mode registers.
\<close>

fun LSM6DSL_Enable_calls :: "uint8_t list \<Rightarrow> 'a driver_scheme \<Rightarrow> 'a driver_scheme" where
  "LSM6DSL_Enable_calls [] w = w"
| "LSM6DSL_Enable_calls (enable # rest) w =
     LSM6DSL_Enable_calls rest (snd (LSM6DSL_Enable enable w))"

fun mode_write :: "reg_op \<Rightarrow> bool" where
  "mode_write (RegWrite reg [v]) \<longleftrightarrow> reg = LSM6DSL_CTRL1_XL \<or> reg = LSM6DSL_CTRL2_G"
| "mode_write _ \<longleftrightarrow> False"

section \<open>Example environments\<close>

text \<open>
  \<open>boot bus queue\<close> is the state at program start, every static at its initializer, on a
  bus and a queue that answer as given; the tick counter reads 0, 1, 2, ... and \<open>rand\<close>
  returns 0. The buses: a healthy one with the LSM6DSL on it (every transfer succeeds and
  every byte read is \<open>0x6A\<close>, so the identity matches and the status register reports
  gyroscope data), one where another device answers with identity \<open>0x6B\<close>, one where
  every transfer fails, and one whose mutex is never obtained.
\<close>

definition boot :: "(nat \<Rightarrow> bus_resp) \<Rightarrow> (nat \<Rightarrow> bool) \<Rightarrow> world" where
  "boot bus queue =
     \<lparr>bus_rsp = bus, reg_ops = [], tick_src = (\<lambda>n. of_nat n), tick_n = 0,
      accel_sensitivity = 61 / 1000, gyro_sensitivity = 875 / 100,
      rand_src = (\<lambda>n. 0), rand_n = 0,
      queue_rsp = queue, queue_n = 0, queue_sent = [],
      uart_log = [], critical_nesting = 0,
      xSensorStats = SensorAcqStats_zero, ucSensorEnabled = 0,
      xIMUConfig = \<lparr>accel_odr = 0, accel_fs = 0, gyro_odr = 0, gyro_fs = 0, fifo_enable = 0\<rparr>,
      last_stats_update = 0, sample_count_in_period = 0, xLastWakeTime = 0, retry_count = 0\<rparr>"

definition bus_present :: "nat \<Rightarrow> bus_resp" where
  "bus_present n = Transfer HAL_OK (replicate 14 0x6A)"

definition bus_other_device :: "nat \<Rightarrow> bus_resp" where
  "bus_other_device n = Transfer HAL_OK (replicate 14 0x6B)"

definition bus_no_ack :: "nat \<Rightarrow> bus_resp" where
  "bus_no_ack n = Transfer HAL_ERROR []"

definition bus_locked :: "nat \<Rightarrow> bus_resp" where
  "bus_locked n = MutexTimeout"

definition queue_free :: "nat \<Rightarrow> bool" where
  "queue_free n = True"

definition queue_full :: "nat \<Rightarrow> bool" where
  "queue_full n = False"

definition config_8g_unknown :: LSM6DSL_Config_t where
  "config_8g_unknown =
     \<lparr>accel_odr = LSM6DSL_XL_ODR_104_HZ, accel_fs = LSM6DSL_XL_FS_8G,
      gyro_odr = LSM6DSL_GY_ODR_104_HZ, gyro_fs = 0x01, fifo_enable = 0\<rparr>"

text \<open>
  \<open>bus_sample burst\<close>: the first access (the status read) reports accelerometer and
  gyroscope data, every later one delivers \<open>burst\<close>. \<open>bus_idle\<close>: the status register
  reports temperature data only. \<open>burst_example\<close> holds temperature 256, gyroscope
  (1000, -1000, 0) and accelerometer (1000, 0, 32767), low byte first.
\<close>

definition bus_sample :: "uint8_t list \<Rightarrow> nat \<Rightarrow> bus_resp" where
  "bus_sample burst n = (if n = 0 then Transfer HAL_OK [0x03] else Transfer HAL_OK burst)"


definition burst_example :: "uint8_t list" where
  "burst_example =
     [0x00, 0x01, 0xE8, 0x03, 0x18, 0xFC, 0x00, 0x00, 0xE8, 0x03, 0x00, 0x00, 0xFF, 0x7F]"

text \<open>
  \<open>before_reinit w\<close> is the state in which a failing cycle that has reached the retry
  threshold calls \<open>SensorAcq_Init\<close>: after the reads of the cycle, the two counters
  incremented, the message logged, the state set to \<open>SENSOR_ACQ_ERROR\<close> and the retry counter
  reset.
\<close>

definition before_reinit :: "world \<Rightarrow> world" where
  "before_reinit w =
     (let (status, sensor_data, sample_start_time, w) = SensorAcqTask_read_sensors w;
          w = w\<lparr>retry_count := retry_count w + 1\<rparr>;
          w = count_error w;
          w = SensorAcq_LogError ''Max sensor read retries exceeded'' w;
          w = set_state SENSOR_ACQ_ERROR w
      in w\<lparr>retry_count := 0\<rparr>)"

text \<open>
  \<open>start bus queue\<close> is the state in which the loop of the task begins: \<open>MainTask\<close> has
  called \<open>SensorAcq_Init\<close>, which makes the first five register accesses and has to succeed
  for the task to be created, and the task has run its prologue. Two buses that are healthy
  during those five accesses: on \<open>bus_lost\<close> the mutex is never obtained afterwards, on
  \<open>bus_glitch\<close> it is not obtained for the next three accesses only. The runs: one cycle on
  the healthy bus; the start on the bus with the glitch and on the lost bus; and the start
  on the healthy bus with a queue that accepts nothing.
\<close>

definition start :: "(nat \<Rightarrow> bus_resp) \<Rightarrow> (nat \<Rightarrow> bool) \<Rightarrow> world" where
  "start bus queue = SensorAcqTask_entry (snd (SensorAcq_Init (boot bus queue)))"

definition bus_lost :: "nat \<Rightarrow> bus_resp" where
  "bus_lost n = (if n < 5 then Transfer HAL_OK (replicate 14 0x6A) else MutexTimeout)"

definition bus_glitch :: "nat \<Rightarrow> bus_resp" where
  "bus_glitch n =
     (if 5 \<le> n \<and> n < 8 then MutexTimeout else Transfer HAL_OK (replicate 14 0x6A))"

definition world_sampled :: world where
  "world_sampled = SensorAcqTask_cycle (start bus_present queue_free)"

definition world_glitch :: world where
  "world_glitch = start bus_glitch queue_free"

definition world_lost :: world where
  "world_lost = start bus_lost queue_free"

definition world_full :: world where
  "world_full = start bus_present queue_full"

section \<open>Lemmas about the driver\<close>

subsection \<open>What a register access touches\<close>

lemma ReadReg_sens [simp]:
  "accel_sensitivity (snd (snd (LSM6DSL_ReadReg r d n w))) = accel_sensitivity w"
  "gyro_sensitivity (snd (snd (LSM6DSL_ReadReg r d n w))) = gyro_sensitivity w"
  by (simp_all add: LSM6DSL_ReadReg_def Let_def split: bus_resp.split)

lemma WriteReg_sens [simp]:
  "accel_sensitivity (snd (LSM6DSL_WriteReg r d n w)) = accel_sensitivity w"
  "gyro_sensitivity (snd (LSM6DSL_WriteReg r d n w)) = gyro_sensitivity w"
  by (simp_all add: LSM6DSL_WriteReg_def Let_def split: bus_resp.split)

lemma WriteReg_reg_ops [simp]:
  "reg_ops (snd (LSM6DSL_WriteReg r d n w)) = reg_ops w @ [RegWrite r (take n d)]"
  by (simp add: LSM6DSL_WriteReg_def Let_def split: bus_resp.split)

lemma ReadReg_reg_ops [simp]:
  "reg_ops (snd (snd (LSM6DSL_ReadReg r d n w))) = reg_ops w @ [RegRead r n]"
  by (simp add: LSM6DSL_ReadReg_def Let_def split: bus_resp.split)

lemma WriteReg_status:
  "fst (LSM6DSL_WriteReg r d n w) =
     (case bus_rsp w (length (reg_ops w)) of MutexTimeout \<Rightarrow> HAL_TIMEOUT | Transfer st rx \<Rightarrow> st)"
  by (simp add: LSM6DSL_WriteReg_def Let_def split: bus_resp.split)

lemma WriteReg_bus [simp]:
  "bus_rsp (snd (LSM6DSL_WriteReg r d n w)) = bus_rsp w"
  by (simp add: LSM6DSL_WriteReg_def Let_def split: bus_resp.split)

lemma ReadReg_bus [simp]:
  "bus_rsp (snd (snd (LSM6DSL_ReadReg r d n w))) = bus_rsp w"
  by (simp add: LSM6DSL_ReadReg_def Let_def split: bus_resp.split)

lemmas init_eval =
  LSM6DSL_Init_def LSM6DSL_ReadWhoAmI_def LSM6DSL_SoftReset_def LSM6DSL_ReadReg_def
  LSM6DSL_WriteReg_def LSM6DSL_UpdateSensitivity_def buffer_fill_def Let_def

subsection \<open>Initialization\<close>

lemma Init_okE:
  assumes "LSM6DSL_Init c w = (HAL_OK, w')"
  obtains w0 where "w' = LSM6DSL_UpdateSensitivity (accel_fs c) (gyro_fs c) w0"
  using assms by (auto simp add: LSM6DSL_Init_def Let_def split: prod.splits if_splits)

lemma Init_err_sens:
  "fst (LSM6DSL_Init c w) \<noteq> HAL_OK \<Longrightarrow>
   accel_sensitivity (snd (LSM6DSL_Init c w)) = accel_sensitivity w \<and>
   gyro_sensitivity (snd (LSM6DSL_Init c w)) = gyro_sensitivity w"
  by (auto simp add: LSM6DSL_Init_def LSM6DSL_ReadWhoAmI_def LSM6DSL_SoftReset_def Let_def
      split_beta split: if_splits)

text \<open>Whether initialization succeeds is decided by the bus alone, not by the configuration.\<close>

lemma Init_status_config:
  "fst (LSM6DSL_Init c w) = fst (LSM6DSL_Init c' w)"
  by (simp add: LSM6DSL_Init_def LSM6DSL_ReadWhoAmI_def LSM6DSL_SoftReset_def Let_def
      split_beta WriteReg_status)

text \<open>
  C1 (as amended). When \<open>LSM6DSL_Init\<close> succeeds, the cached sensitivities are the table
  entries of the configuration's full-scale codes: accelerometer 2g 0.061, 4g 0.122,
  8g 0.244, 16g 0.488 mg/LSB; gyroscope 125 dps 4.375, 250 dps 8.75, 500 dps 17.50,
  1000 dps 35.0, 2000 dps 70.0 mdps/LSB. A code outside the table does not make
  initialization fail: an accelerometer code outside the table gives 0.061, the coefficient
  of 2g, and a gyroscope code outside the table gives 8.75, the coefficient of 250 dps (the
  range of code 0x00), which is not the narrowest range's 4.375. The last conjunct says
  that the outcome does not depend on the codes: with any other two codes the call
  succeeds as well.
\<close>

theorem C1_sensitivity_tables:
  assumes "LSM6DSL_Init config w = (HAL_OK, w')"
  shows "(accel_fs config = LSM6DSL_XL_FS_2G \<longrightarrow> accel_sensitivity w' = 61 / 1000) \<and>
         (accel_fs config = LSM6DSL_XL_FS_4G \<longrightarrow> accel_sensitivity w' = 122 / 1000) \<and>
         (accel_fs config = LSM6DSL_XL_FS_8G \<longrightarrow> accel_sensitivity w' = 244 / 1000) \<and>
         (accel_fs config = LSM6DSL_XL_FS_16G \<longrightarrow> accel_sensitivity w' = 488 / 1000) \<and>
         (accel_fs config \<notin> {LSM6DSL_XL_FS_2G, LSM6DSL_XL_FS_4G, LSM6DSL_XL_FS_8G, LSM6DSL_XL_FS_16G}
            \<longrightarrow> accel_sensitivity w' = 61 / 1000) \<and>
         (gyro_fs config = LSM6DSL_GY_FS_125_DPS \<longrightarrow> gyro_sensitivity w' = 4375 / 1000) \<and>
         (gyro_fs config = LSM6DSL_GY_FS_250_DPS \<longrightarrow> gyro_sensitivity w' = 875 / 100) \<and>
         (gyro_fs config = LSM6DSL_GY_FS_500_DPS \<longrightarrow> gyro_sensitivity w' = 1750 / 100) \<and>
         (gyro_fs config = LSM6DSL_GY_FS_1000_DPS \<longrightarrow> gyro_sensitivity w' = 35) \<and>
         (gyro_fs config = LSM6DSL_GY_FS_2000_DPS \<longrightarrow> gyro_sensitivity w' = 70) \<and>
         (gyro_fs config \<notin> {LSM6DSL_GY_FS_125_DPS, LSM6DSL_GY_FS_250_DPS, LSM6DSL_GY_FS_500_DPS,
                              LSM6DSL_GY_FS_1000_DPS, LSM6DSL_GY_FS_2000_DPS}
            \<longrightarrow> gyro_sensitivity w' = 875 / 100) \<and>
         fst (LSM6DSL_Init (config\<lparr>accel_fs := a, gyro_fs := g\<rparr>) w) = HAL_OK"
proof -
  from assms obtain w0
    where w': "w' = LSM6DSL_UpdateSensitivity (accel_fs config) (gyro_fs config) w0"
    by (rule Init_okE)
  have "fst (LSM6DSL_Init (config\<lparr>accel_fs := a, gyro_fs := g\<rparr>) w) = HAL_OK"
    using assms Init_status_config [of "config\<lparr>accel_fs := a, gyro_fs := g\<rparr>" w config] by simp
  then show ?thesis
    by (simp add: w' LSM6DSL_UpdateSensitivity_def)
qed

text \<open>
  On the healthy bus, initialization with the 8g code and the gyroscope code \<open>0x01\<close>,
  which is in no table, succeeds and caches 0.244 and 8.75.
\<close>

theorem C1_sensitivity_tables_witness:
  "LSM6DSL_Init config_8g_unknown (boot bus_present queue_free) =
     (HAL_OK, snd (LSM6DSL_Init config_8g_unknown (boot bus_present queue_free))) \<and>
   accel_sensitivity (snd (LSM6DSL_Init config_8g_unknown (boot bus_present queue_free))) = 244 / 1000 \<and>
   gyro_sensitivity (snd (LSM6DSL_Init config_8g_unknown (boot bus_present queue_free))) = 875 / 100"
proof -
  have ok: "fst (LSM6DSL_Init config_8g_unknown (boot bus_present queue_free)) = HAL_OK"
    by (simp add: init_eval boot_def bus_present_def)
  then have eq: "LSM6DSL_Init config_8g_unknown (boot bus_present queue_free) =
     (HAL_OK, snd (LSM6DSL_Init config_8g_unknown (boot bus_present queue_free)))"
    by (metis prod.collapse)
  show ?thesis
    using C1_sensitivity_tables [OF eq] eq by (simp add: config_8g_unknown_def)
qed

text \<open>
  C1 as stated fails: the gyroscope code \<open>0x01\<close> is in no table, initialization succeeds,
  and the cached gyroscope coefficient is 8.75, not the 4.375 of the narrowest range.
\<close>

theorem C1_gyro_default_counterexample:
  "fst (LSM6DSL_Init config_8g_unknown (boot bus_present queue_free)) = HAL_OK \<and>
   gyro_fs config_8g_unknown = 0x01 \<and>
   gyro_sensitivity (snd (LSM6DSL_Init config_8g_unknown (boot bus_present queue_free))) = 875 / 100 \<and>
   gyro_sensitivity (snd (LSM6DSL_Init config_8g_unknown (boot bus_present queue_free))) \<noteq> 4375 / 1000"
  by (simp add: init_eval boot_def bus_present_def config_8g_unknown_def)

text \<open>
  C6 (as amended). \<open>LSM6DSL_Init\<close> returns \<open>HAL_ERROR\<close> when the identity register is read
  successfully and is not \<open>0x6A\<close>, and it returns the same \<open>HAL_ERROR\<close> when the identity
  read itself fails, whatever status the read reported (a mutex or bus timeout included).
  In both cases nothing more is done: the state is the one the identity read left. The
  return value does not tell a wrong device from a bus failure.
\<close>

theorem C6_identity_errors_coincide:
  assumes "LSM6DSL_ReadWhoAmI 0 w = (status, who_am_i, w')"
  shows "(status = HAL_OK \<and> who_am_i \<noteq> LSM6DSL_WHO_AM_I_VALUE
            \<longrightarrow> LSM6DSL_Init config w = (HAL_ERROR, w')) \<and>
         (status \<noteq> HAL_OK \<longrightarrow> LSM6DSL_Init config w = (HAL_ERROR, w'))"
  using assms by (simp add: LSM6DSL_Init_def)

text \<open>
  Another device answering \<open>0x6B\<close>, and a bus whose mutex is never obtained (the read
  reports \<open>HAL_TIMEOUT\<close>): initialization returns \<open>HAL_ERROR\<close> both times.
\<close>

theorem C6_identity_errors_coincide_witness:
  "LSM6DSL_ReadWhoAmI 0 (boot bus_other_device queue_free) =
      (HAL_OK, 0x6B, snd (snd (LSM6DSL_ReadWhoAmI 0 (boot bus_other_device queue_free)))) \<and>
   fst (LSM6DSL_Init config_8g_unknown (boot bus_other_device queue_free)) = HAL_ERROR \<and>
   LSM6DSL_ReadWhoAmI 0 (boot bus_locked queue_free) =
      (HAL_TIMEOUT, 0, snd (snd (LSM6DSL_ReadWhoAmI 0 (boot bus_locked queue_free)))) \<and>
   fst (LSM6DSL_Init config_8g_unknown (boot bus_locked queue_free)) = HAL_ERROR"
proof -
  have a: "LSM6DSL_ReadWhoAmI 0 (boot bus_other_device queue_free) =
      (HAL_OK, 0x6B, snd (snd (LSM6DSL_ReadWhoAmI 0 (boot bus_other_device queue_free))))"
    by (simp add: init_eval boot_def bus_other_device_def)
  have b: "LSM6DSL_ReadWhoAmI 0 (boot bus_locked queue_free) =
      (HAL_TIMEOUT, 0, snd (snd (LSM6DSL_ReadWhoAmI 0 (boot bus_locked queue_free))))"
    by (simp add: init_eval boot_def bus_locked_def)
  show ?thesis
    using C6_identity_errors_coincide [OF a, of config_8g_unknown]
      C6_identity_errors_coincide [OF b, of config_8g_unknown] a b
    by simp
qed

text \<open>
  C6 as stated fails: with the identity read successfully as \<open>0x6B\<close>, and with the
  identity read failing with \<open>HAL_ERROR\<close>, \<open>LSM6DSL_Init\<close> returns one and the same value.
\<close>

theorem C6_identity_counterexample:
  "LSM6DSL_ReadWhoAmI 0 (boot bus_other_device queue_free) =
      (HAL_OK, 0x6B, snd (snd (LSM6DSL_ReadWhoAmI 0 (boot bus_other_device queue_free)))) \<and>
   fst (LSM6DSL_ReadWhoAmI 0 (boot bus_no_ack queue_free)) = HAL_ERROR \<and>
   fst (LSM6DSL_Init config_8g_unknown (boot bus_other_device queue_free)) =
   fst (LSM6DSL_Init config_8g_unknown (boot bus_no_ack queue_free))"
  by (simp add: init_eval boot_def bus_other_device_def bus_no_ack_def)

text \<open>
  C9. Whenever \<open>LSM6DSL_Init\<close> returns an error, whichever step failed, the two cached
  sensitivities are what they were before the call.
\<close>

theorem C9_failed_init_keeps_sensitivity:
  assumes "LSM6DSL_Init config w = (status, w')" and "status \<noteq> HAL_OK"
  shows "accel_sensitivity w' = accel_sensitivity w \<and> gyro_sensitivity w' = gyro_sensitivity w"
  using assms Init_err_sens [of config w] by simp

text \<open>
  Initialization with the 8g code against the wrong device fails and leaves the initial
  0.061 and 8.75 in place.
\<close>

theorem C9_failed_init_keeps_sensitivity_witness:
  "LSM6DSL_Init config_8g_unknown (boot bus_other_device queue_free) =
     (HAL_ERROR, snd (LSM6DSL_Init config_8g_unknown (boot bus_other_device queue_free))) \<and>
   HAL_ERROR \<noteq> HAL_OK \<and>
   accel_sensitivity (snd (LSM6DSL_Init config_8g_unknown (boot bus_other_device queue_free))) = 61 / 1000 \<and>
   gyro_sensitivity (snd (LSM6DSL_Init config_8g_unknown (boot bus_other_device queue_free))) = 875 / 100"
proof -
  have eq: "LSM6DSL_Init config_8g_unknown (boot bus_other_device queue_free) =
     (HAL_ERROR, snd (LSM6DSL_Init config_8g_unknown (boot bus_other_device queue_free)))"
    by (simp add: init_eval boot_def bus_other_device_def)
  have ne: "HAL_ERROR \<noteq> HAL_OK" by simp
  show ?thesis
    using C9_failed_init_keeps_sensitivity [OF eq ne] eq by (simp add: boot_def)
qed

subsection \<open>Enabling and disabling\<close>

lemma Enable_sens:
  "accel_sensitivity (snd (LSM6DSL_Enable e w)) = accel_sensitivity w \<and>
   gyro_sensitivity (snd (LSM6DSL_Enable e w)) = gyro_sensitivity w"
  by (simp add: LSM6DSL_Enable_def Let_def split_beta)

lemma Enable_reg_ops:
  "\<exists>ops. reg_ops (snd (LSM6DSL_Enable e w)) = reg_ops w @ ops \<and> list_all mode_write ops"
  by (simp add: LSM6DSL_Enable_def Let_def split_beta)

lemma Enable_calls_sens:
  "accel_sensitivity (LSM6DSL_Enable_calls es w) = accel_sensitivity w \<and>
   gyro_sensitivity (LSM6DSL_Enable_calls es w) = gyro_sensitivity w"
  by (induction es arbitrary: w) (simp_all add: Enable_sens)

lemma Enable_calls_reg_ops:
  "\<exists>ops. reg_ops (LSM6DSL_Enable_calls es w) = reg_ops w @ ops \<and> list_all mode_write ops"
proof (induction es arbitrary: w)
  case Nil
  then show ?case by simp
next
  case (Cons e es)
  obtain ops1
    where 1: "reg_ops (snd (LSM6DSL_Enable e w)) = reg_ops w @ ops1" "list_all mode_write ops1"
    using Enable_reg_ops by blast
  obtain ops2
    where 2: "reg_ops (LSM6DSL_Enable_calls es (snd (LSM6DSL_Enable e w))) =
                reg_ops (snd (LSM6DSL_Enable e w)) @ ops2" "list_all mode_write ops2"
    using Cons.IH by blast
  have "reg_ops (LSM6DSL_Enable_calls (e # es) w) = reg_ops w @ (ops1 @ ops2) \<and>
        list_all mode_write (ops1 @ ops2)"
    using 1 2 by simp
  then show ?case by blast
qed

text \<open>
  C8. After any sequence of \<open>LSM6DSL_Enable\<close> calls, and so after enable, disable, enable,
  the two cached sensitivities are what they were before; and every register access the
  sequence makes is a one-byte write to CTRL1_XL or CTRL2_G, whatever the bus answers.
\<close>

theorem C8_enable_keeps_sensitivity:
  "accel_sensitivity (LSM6DSL_Enable_calls enables w) = accel_sensitivity w \<and>
   gyro_sensitivity (LSM6DSL_Enable_calls enables w) = gyro_sensitivity w \<and>
   accel_sensitivity (LSM6DSL_Enable_calls [1, 0, 1] w) = accel_sensitivity w \<and>
   gyro_sensitivity (LSM6DSL_Enable_calls [1, 0, 1] w) = gyro_sensitivity w \<and>
   take (length (reg_ops w)) (reg_ops (LSM6DSL_Enable_calls enables w)) = reg_ops w \<and>
   list_all mode_write (drop (length (reg_ops w)) (reg_ops (LSM6DSL_Enable_calls enables w)))"
proof -
  obtain ops
    where "reg_ops (LSM6DSL_Enable_calls enables w) = reg_ops w @ ops" "list_all mode_write ops"
    using Enable_calls_reg_ops by blast
  moreover have "accel_sensitivity (LSM6DSL_Enable_calls enables w) = accel_sensitivity w \<and>
      gyro_sensitivity (LSM6DSL_Enable_calls enables w) = gyro_sensitivity w"
    by (rule Enable_calls_sens)
  moreover have "accel_sensitivity (LSM6DSL_Enable_calls [1, 0, 1] w) = accel_sensitivity w \<and>
      gyro_sensitivity (LSM6DSL_Enable_calls [1, 0, 1] w) = gyro_sensitivity w"
    by (rule Enable_calls_sens)
  ultimately show ?thesis
    by simp
qed

text \<open>
  After a successful initialization with the 8g code, enable, disable, enable leaves
  0.244 and 8.75 cached, and makes six writes to the two mode registers.
\<close>

theorem C8_enable_keeps_sensitivity_witness:
  "accel_sensitivity (LSM6DSL_Enable_calls [1, 0, 1]
      (snd (LSM6DSL_Init config_8g_unknown (boot bus_present queue_free)))) = 244 / 1000 \<and>
   gyro_sensitivity (LSM6DSL_Enable_calls [1, 0, 1]
      (snd (LSM6DSL_Init config_8g_unknown (boot bus_present queue_free)))) = 875 / 100 \<and>
   drop 5 (reg_ops (LSM6DSL_Enable_calls [1, 0, 1]
      (snd (LSM6DSL_Init config_8g_unknown (boot bus_present queue_free))))) =
     [RegWrite LSM6DSL_CTRL1_XL [0x40], RegWrite LSM6DSL_CTRL2_G [0x40],
      RegWrite LSM6DSL_CTRL1_XL [0x00], RegWrite LSM6DSL_CTRL2_G [0x00],
      RegWrite LSM6DSL_CTRL1_XL [0x40], RegWrite LSM6DSL_CTRL2_G [0x40]]"
proof -
  have sens:
    "accel_sensitivity (snd (LSM6DSL_Init config_8g_unknown (boot bus_present queue_free))) = 244 / 1000"
    "gyro_sensitivity (snd (LSM6DSL_Init config_8g_unknown (boot bus_present queue_free))) = 875 / 100"
    by (simp_all add: init_eval boot_def bus_present_def config_8g_unknown_def)
  have ops: "drop 5 (reg_ops (LSM6DSL_Enable_calls [1, 0, 1]
      (snd (LSM6DSL_Init config_8g_unknown (boot bus_present queue_free))))) =
     [RegWrite LSM6DSL_CTRL1_XL [0x40], RegWrite LSM6DSL_CTRL2_G [0x40],
      RegWrite LSM6DSL_CTRL1_XL [0x00], RegWrite LSM6DSL_CTRL2_G [0x00],
      RegWrite LSM6DSL_CTRL1_XL [0x40], RegWrite LSM6DSL_CTRL2_G [0x40]]"
    by (simp add: init_eval LSM6DSL_Enable_def boot_def bus_present_def config_8g_unknown_def)
  show ?thesis
    using C8_enable_keeps_sensitivity
      [of "[1, 0, 1]" "snd (LSM6DSL_Init config_8g_unknown (boot bus_present queue_free))"]
      sens ops
    by simp
qed

subsection \<open>Reading a sample\<close>

text \<open>
  The C expression that assembles an axis value, with its promotions, shift and narrowing
  conversion, yields the little-endian signed 16-bit value of the two bytes.
\<close>

lemma uint_or_shift8:
  fixes hi lo :: uint8_t
  shows "uint (ucast (push_bit 8 (ucast hi :: uint32_t) OR (ucast lo :: uint32_t)) :: uint16_t)
   = uint lo + 256 * uint hi"
proof -
  have "uint (ucast (push_bit 8 (ucast hi :: uint32_t) OR (ucast lo :: uint32_t)) :: uint16_t)
      = concat_bit 8 (uint lo) (uint hi)"
  proof (rule bit_eqI)
    fix n
    have hi: "bit hi m \<Longrightarrow> m < 8" for m using bit_imp_le_length [of hi m] by simp
    have lo: "bit lo m \<Longrightarrow> m < 8" for m using bit_imp_le_length [of lo m] by simp
    show "bit (uint (ucast (push_bit 8 (ucast hi :: uint32_t) OR (ucast lo :: uint32_t)) :: uint16_t)) n
       \<longleftrightarrow> bit (concat_bit 8 (uint lo) (uint hi)) n"
      using hi [of "n - 8"] lo [of n] by (auto simp add: bit_simps)
  qed
  moreover have "uint lo < 2 ^ 8" using uint_lt2p [of lo] by simp
  then have "take_bit 8 (uint lo) = uint lo"
    by (simp add: take_bit_int_eq_self)
  ultimately show ?thesis
    by (simp add: concat_bit_eq push_bit_eq_mult)
qed

lemma signed_take_bit_15:
  assumes "0 \<le> k" "k < 65536"
  shows "signed_take_bit 15 (k::int) = (if k < 32768 then k else k - 65536)"
proof -
  have shift: "signed_take_bit 15 k = (k + 32768) mod 65536 - 32768"
    by (simp add: signed_take_bit_eq_take_bit_shift take_bit_eq_mod)
  show ?thesis
  proof (cases "k < 32768")
    case True
    then have "(k + 32768) mod 65536 = k + 32768"
      using assms by simp
    with True shift show ?thesis by simp
  next
    case False
    have "k + 32768 = (k - 32768) + 65536"
      by linarith
    then have "(k + 32768) mod 65536 = ((k - 32768) + 65536) mod 65536"
      by (rule arg_cong)
    also have "\<dots> = (k - 32768) mod 65536"
      by (rule mod_add_self2)
    also have "\<dots> = k - 32768"
      using False assms by simp
    finally show ?thesis
      using False shift by simp
  qed
qed

lemma byte_bounds: "0 \<le> uint (b::uint8_t) \<and> uint b < 256"
  using uint_lt2p [of b] by simp

lemma raw_int16_eq: "raw_int16 hi lo = le_int16 lo hi"
proof -
  have "0 \<le> uint lo + 256 * uint hi" "uint lo + 256 * uint hi < 65536"
    using byte_bounds [of lo] byte_bounds [of hi] by simp_all
  then show ?thesis
    unfolding raw_int16_def le_int16_def sint_uint uint_or_shift8
    using signed_take_bit_15 [of "uint lo + 256 * uint hi"] by simp
qed

lemma le_int16_range: "- 32768 \<le> le_int16 lo hi \<and> le_int16 lo hi < 32768"
proof -
  define k where "k = uint lo + 256 * uint hi"
  have "0 \<le> k" "k < 65536"
    using byte_bounds [of lo] byte_bounds [of hi] by (simp_all add: k_def)
  then have "- 32768 \<le> (if k < 32768 then k else k - 65536) \<and>
             (if k < 32768 then k else k - 65536) < 32768"
    by auto
  then show ?thesis unfolding le_int16_def k_def .
qed

lemma data_available_iff:
  fixes status_reg :: uint8_t
  shows "status_reg AND (LSM6DSL_STATUS_XLDA OR LSM6DSL_STATUS_GDA) \<noteq> 0 \<longleftrightarrow>
         status_reg AND LSM6DSL_STATUS_XLDA \<noteq> 0 \<or> status_reg AND LSM6DSL_STATUS_GDA \<noteq> 0"
proof -
  have "status_reg AND (LSM6DSL_STATUS_XLDA OR LSM6DSL_STATUS_GDA) =
        (status_reg AND LSM6DSL_STATUS_XLDA) OR (status_reg AND LSM6DSL_STATUS_GDA)"
    by (rule bit.conj_disj_distrib)
  then show ?thesis
    by (simp only: or_eq_0_iff) blast
qed



lemma GetStatus_eq:
  "LSM6DSL_GetStatus v w =
     (fst (LSM6DSL_ReadReg LSM6DSL_STATUS_REG [v] 1 w),
      fst (snd (LSM6DSL_ReadReg LSM6DSL_STATUS_REG [v] 1 w)) ! 0,
      snd (snd (LSM6DSL_ReadReg LSM6DSL_STATUS_REG [v] 1 w)))"
  by (simp add: LSM6DSL_GetStatus_def split_beta)

lemma GetStatus_sens [simp]:
  "accel_sensitivity (snd (snd (LSM6DSL_GetStatus v w))) = accel_sensitivity w"
  "gyro_sensitivity (snd (snd (LSM6DSL_GetStatus v w))) = gyro_sensitivity w"
  by (simp_all add: GetStatus_eq)


lemma ReadData_ready:
  assumes "LSM6DSL_GetStatus 0 w = (HAL_OK, status_reg, w1)"
    and "status_reg AND LSM6DSL_STATUS_XLDA \<noteq> 0 \<or> status_reg AND LSM6DSL_STATUS_GDA \<noteq> 0"
    and "LSM6DSL_ReadReg LSM6DSL_OUT_TEMP_L (replicate 14 0) 14 w1 = (HAL_OK, raw, w2)"
  shows "LSM6DSL_ReadData data w =
    (HAL_OK,
     \<lparr>d_accel_x = real_of_int (le_int16 (raw ! 8) (raw ! 9)) * accel_sensitivity w * (980665 / 100000) / 1000,
      d_accel_y = real_of_int (le_int16 (raw ! 10) (raw ! 11)) * accel_sensitivity w * (980665 / 100000) / 1000,
      d_accel_z = real_of_int (le_int16 (raw ! 12) (raw ! 13)) * accel_sensitivity w * (980665 / 100000) / 1000,
      d_gyro_x = real_of_int (le_int16 (raw ! 2) (raw ! 3)) * gyro_sensitivity w * (314159 / 100000) / (180 * 1000),
      d_gyro_y = real_of_int (le_int16 (raw ! 4) (raw ! 5)) * gyro_sensitivity w * (314159 / 100000) / (180 * 1000),
      d_gyro_z = real_of_int (le_int16 (raw ! 6) (raw ! 7)) * gyro_sensitivity w * (314159 / 100000) / (180 * 1000),
      d_temperature = 25 + real_of_int (le_int16 (raw ! 0) (raw ! 1)) / 256,
      d_timestamp = tick_src w2 (tick_n w2),
      data_ready = 1\<rparr>,
     w2\<lparr>tick_n := Suc (tick_n w2)\<rparr>)"
proof -
  have s1: "accel_sensitivity w1 = accel_sensitivity w" "gyro_sensitivity w1 = gyro_sensitivity w"
    using assms(1) GetStatus_sens [of 0 w] by simp_all
  have s2: "accel_sensitivity w2 = accel_sensitivity w1" "gyro_sensitivity w2 = gyro_sensitivity w1"
    using assms(3) ReadReg_sens [of LSM6DSL_OUT_TEMP_L "replicate 14 0" 14 w1] by simp_all
  show ?thesis
    using assms data_available_iff [of status_reg] s1 s2
    by (simp add: LSM6DSL_ReadData_def xTaskGetTickCount_def raw_int16_eq
        del: LSM6DSL_STATUS_XLDA_def LSM6DSL_STATUS_GDA_def)
qed

text \<open>
  The decoded temperature is a multiple of \<open>1/256\<close> with a numerator below \<open>2^24\<close>, so
  it is a binary32 number, as are both operands of the division and of the sum that
  produce it: the C expression \<open>25.0f + (float)raw_temp / 256.0f\<close> rounds nowhere, and
  the real-number model of it is exact.
\<close>

lemma temperature_exact:
  "\<exists>k::int. \<bar>k\<bar> < 2 ^ 24 \<and> 25 + real_of_int (le_int16 lo hi) / 256 = real_of_int k / 2 ^ 8"
proof -
  have "\<bar>6400 + le_int16 lo hi\<bar> < 16777216"
    using le_int16_range [of lo hi] by linarith
  then have "\<bar>6400 + le_int16 lo hi\<bar> < 2 ^ 24"
    by simp
  moreover have "25 + real_of_int (le_int16 lo hi) / 256 = real_of_int (6400 + le_int16 lo hi) / 2 ^ 8"
    by simp
  ultimately show ?thesis by blast
qed


text \<open>
  The two example devices: the idle one answers the status read with \<open>0x04\<close>, the
  sampling one with \<open>0x03\<close> and then delivers its burst.
\<close>

lemmas read_eval =
  LSM6DSL_GetStatus_def LSM6DSL_ReadReg_def buffer_fill_def boot_def Let_def


lemma sample_status:
  "LSM6DSL_GetStatus 0 (boot (bus_sample burst) queue_free) =
     (HAL_OK, 0x03, snd (snd (LSM6DSL_GetStatus 0 (boot (bus_sample burst) queue_free))))"
  by (simp add: read_eval bus_sample_def)

lemma sample_burst:
  "length burst = 14 \<Longrightarrow>
   LSM6DSL_ReadReg LSM6DSL_OUT_TEMP_L (replicate 14 0) 14
       (snd (snd (LSM6DSL_GetStatus 0 (boot (bus_sample burst) queue_free)))) =
     (HAL_OK, burst,
      snd (snd (LSM6DSL_ReadReg LSM6DSL_OUT_TEMP_L (replicate 14 0) 14
        (snd (snd (LSM6DSL_GetStatus 0 (boot (bus_sample burst) queue_free)))))))"
  by (simp add: read_eval bus_sample_def)


text \<open>
  C7. Whenever \<open>LSM6DSL_ReadData\<close> decodes a burst, the temperature is 25 + raw/256 for
  the raw signed 16-bit temperature of bytes 0 (low) and 1 (high): exactly 25 for the raw
  value 0, that is bytes \<open>[0x00, 0x00]\<close>, and exactly 26 for the raw value 256, that is
  bytes \<open>[0x00, 0x01]\<close>. The last conjunct is the exactness of the binary32 computation.
\<close>

theorem C7_temperature_decode:
  assumes "LSM6DSL_GetStatus 0 w = (HAL_OK, status_reg, ws)"
    and "status_reg AND LSM6DSL_STATUS_XLDA \<noteq> 0 \<or> status_reg AND LSM6DSL_STATUS_GDA \<noteq> 0"
    and "LSM6DSL_ReadReg LSM6DSL_OUT_TEMP_L (replicate 14 0) 14 ws = (HAL_OK, raw, wb)"
  shows "d_temperature (fst (snd (LSM6DSL_ReadData data w))) =
           25 + real_of_int (raw_int16 (raw ! 1) (raw ! 0)) / 256 \<and>
         (raw_int16 (raw ! 1) (raw ! 0) = 0 \<longrightarrow>
            d_temperature (fst (snd (LSM6DSL_ReadData data w))) = 25) \<and>
         (raw_int16 (raw ! 1) (raw ! 0) = 256 \<longrightarrow>
            d_temperature (fst (snd (LSM6DSL_ReadData data w))) = 26) \<and>
         (raw ! 0 = 0x00 \<and> raw ! 1 = 0x00 \<longrightarrow>
            d_temperature (fst (snd (LSM6DSL_ReadData data w))) = 25) \<and>
         (raw ! 0 = 0x00 \<and> raw ! 1 = 0x01 \<longrightarrow>
            d_temperature (fst (snd (LSM6DSL_ReadData data w))) = 26) \<and>
         (\<exists>k::int. \<bar>k\<bar> < 2 ^ 24 \<and>
            d_temperature (fst (snd (LSM6DSL_ReadData data w))) = real_of_int k / 2 ^ 8)"
proof -
  have t: "d_temperature (fst (snd (LSM6DSL_ReadData data w))) =
      25 + real_of_int (le_int16 (raw ! 0) (raw ! 1)) / 256"
    by (simp add: ReadData_ready [OF assms, of data])
  have bytes: "le_int16 0x00 0x00 = 0" "le_int16 0x00 0x01 = 256"
    by (simp_all add: le_int16_def)
  show ?thesis
  proof (intro conjI impI)
    show "d_temperature (fst (snd (LSM6DSL_ReadData data w))) =
        25 + real_of_int (raw_int16 (raw ! 1) (raw ! 0)) / 256"
      by (simp add: t raw_int16_eq)
    show "d_temperature (fst (snd (LSM6DSL_ReadData data w))) = 25"
      if "raw_int16 (raw ! 1) (raw ! 0) = 0"
      using that by (simp add: t raw_int16_eq)
    show "d_temperature (fst (snd (LSM6DSL_ReadData data w))) = 26"
      if "raw_int16 (raw ! 1) (raw ! 0) = 256"
      using that by (simp add: t raw_int16_eq)
    show "d_temperature (fst (snd (LSM6DSL_ReadData data w))) = 25"
      if "raw ! 0 = 0x00 \<and> raw ! 1 = 0x00"
      using that bytes by (simp add: t)
    show "d_temperature (fst (snd (LSM6DSL_ReadData data w))) = 26"
      if "raw ! 0 = 0x00 \<and> raw ! 1 = 0x01"
      using that bytes by (simp add: t)
    show "\<exists>k::int. \<bar>k\<bar> < 2 ^ 24 \<and>
        d_temperature (fst (snd (LSM6DSL_ReadData data w))) = real_of_int k / 2 ^ 8"
      unfolding t by (rule temperature_exact)
  qed
qed

text \<open>
  A burst of zero bytes decodes to 25 degrees, and \<open>burst_example\<close>, whose temperature
  bytes are \<open>[0x00, 0x01]\<close>, to 26.
\<close>

theorem C7_temperature_decode_witness:
  "d_temperature (fst (snd (LSM6DSL_ReadData LSM6DSL_Data_zero
      (boot (bus_sample (replicate 14 0x00)) queue_free)))) = 25 \<and>
   d_temperature (fst (snd (LSM6DSL_ReadData LSM6DSL_Data_zero
      (boot (bus_sample burst_example) queue_free)))) = 26"
proof -
  have avail: "(0x03 :: uint8_t) AND LSM6DSL_STATUS_XLDA \<noteq> 0 \<or> (0x03 :: uint8_t) AND LSM6DSL_STATUS_GDA \<noteq> 0"
    by simp
  have zero: "d_temperature (fst (snd (LSM6DSL_ReadData LSM6DSL_Data_zero
      (boot (bus_sample (replicate 14 0x00)) queue_free)))) = 25"
    using C7_temperature_decode [OF sample_status [of "replicate 14 0x00"] avail sample_burst,
        where data = LSM6DSL_Data_zero]
    by simp
  have one: "d_temperature (fst (snd (LSM6DSL_ReadData LSM6DSL_Data_zero
      (boot (bus_sample burst_example) queue_free)))) = 26"
    using C7_temperature_decode [OF sample_status [of burst_example] avail sample_burst,
        where data = LSM6DSL_Data_zero]
    by (simp add: burst_example_def)
  from zero one show ?thesis by blast
qed

section \<open>The statistics functions\<close>

lemmas stats_eval =
  SensorAcq_ResetStats_def SensorAcq_ResetStats_steps_def SensorAcq_GetStats_def
  SensorAcq_GetStats_steps_def run_steps_def taskENTER_CRITICAL_def taskEXIT_CRITICAL_def


lemma GetStats_Ptr:
  "SensorAcq_GetStats (Ptr a) (w, m) = (w, m(a := xSensorStats w))"
  by (simp add: stats_eval)






text \<open>
  C10. With a null pointer \<open>SensorAcq_GetStats\<close> executes no statement at all: the
  caller's memory and the whole state of the module, the statistics among it, are what they
  were.
\<close>

theorem C10_get_stats_null:
  "SensorAcq_GetStats NULL (w, m) = (w, m) \<and> SensorAcq_GetStats_steps NULL = []"
  by (simp add: stats_eval)

text \<open>
  After one cycle on the healthy bus, with a caller's memory of zeroed objects: with a null
  pointer nothing changes, while with a pointer to object 1 the statistics are copied into
  that object.
\<close>

theorem C10_get_stats_null_witness:
  "SensorAcq_GetStats NULL (world_sampled, \<lambda>a. SensorAcqStats_zero) =
     (world_sampled, \<lambda>a. SensorAcqStats_zero) \<and>
   snd (SensorAcq_GetStats (Ptr 1) (world_sampled, \<lambda>a. SensorAcqStats_zero)) 1 =
     xSensorStats world_sampled"
  using C10_get_stats_null [of world_sampled "\<lambda>a. SensorAcqStats_zero"]
  by (simp add: GetStats_Ptr)

section \<open>The acquisition task\<close>

subsection \<open>What the calls of a cycle leave alone\<close>

lemma init_attempts_append [simp]:
  "init_attempts (w\<lparr>reg_ops := reg_ops w @ ops\<rparr>) =
     init_attempts w + length (filter (\<lambda>op. op = RegRead LSM6DSL_WHO_AM_I 1) ops)"
  by (simp add: init_attempts_def)

lemma init_attempts_upd [simp]:
  "init_attempts (w\<lparr>tick_n := a\<rparr>) = init_attempts w"
  "init_attempts (w\<lparr>rand_n := b\<rparr>) = init_attempts w"
  "init_attempts (w\<lparr>uart_log := c\<rparr>) = init_attempts w"
  "init_attempts (w\<lparr>xSensorStats := d\<rparr>) = init_attempts w"
  "init_attempts (w\<lparr>retry_count := e\<rparr>) = init_attempts w"
  "init_attempts (w\<lparr>queue_n := f\<rparr>) = init_attempts w"
  "init_attempts (w\<lparr>queue_sent := g\<rparr>) = init_attempts w"
  "init_attempts (w\<lparr>xIMUConfig := h\<rparr>) = init_attempts w"
  "init_attempts (w\<lparr>xLastWakeTime := i\<rparr>) = init_attempts w"
  "init_attempts (w\<lparr>last_stats_update := j\<rparr>) = init_attempts w"
  "init_attempts (w\<lparr>sample_count_in_period := k\<rparr>) = init_attempts w"
  "init_attempts (w\<lparr>accel_sensitivity := l\<rparr>) = init_attempts w"
  "init_attempts (w\<lparr>gyro_sensitivity := m\<rparr>) = init_attempts w"
  by (simp_all add: init_attempts_def)

lemma ReadReg_init_attempts:
  "init_attempts (snd (snd (LSM6DSL_ReadReg r d n w))) =
     init_attempts w + (if r = LSM6DSL_WHO_AM_I \<and> n = 1 then 1 else 0)"
  by (simp add: init_attempts_def)

lemma WriteReg_init_attempts [simp]:
  "init_attempts (snd (LSM6DSL_WriteReg r d n w)) = init_attempts w"
  by (simp add: init_attempts_def)

lemma ReadReg_world [simp]:
  fixes w :: world
  shows "xSensorStats (snd (snd (LSM6DSL_ReadReg r d n w))) = xSensorStats w"
    "retry_count (snd (snd (LSM6DSL_ReadReg r d n w))) = retry_count w"
    "ucSensorEnabled (snd (snd (LSM6DSL_ReadReg r d n w))) = ucSensorEnabled w"
    "queue_rsp (snd (snd (LSM6DSL_ReadReg r d n w))) = queue_rsp w"
    "queue_n (snd (snd (LSM6DSL_ReadReg r d n w))) = queue_n w"
    "queue_sent (snd (snd (LSM6DSL_ReadReg r d n w))) = queue_sent w"
    "uart_log (snd (snd (LSM6DSL_ReadReg r d n w))) = uart_log w"
  by (simp_all add: LSM6DSL_ReadReg_def Let_def split: bus_resp.split)

lemma WriteReg_world [simp]:
  fixes w :: world
  shows "xSensorStats (snd (LSM6DSL_WriteReg r d n w)) = xSensorStats w"
    "retry_count (snd (LSM6DSL_WriteReg r d n w)) = retry_count w"
    "ucSensorEnabled (snd (LSM6DSL_WriteReg r d n w)) = ucSensorEnabled w"
    "queue_rsp (snd (LSM6DSL_WriteReg r d n w)) = queue_rsp w"
    "queue_n (snd (LSM6DSL_WriteReg r d n w)) = queue_n w"
    "queue_sent (snd (LSM6DSL_WriteReg r d n w)) = queue_sent w"
    "uart_log (snd (LSM6DSL_WriteReg r d n w)) = uart_log w"
  by (simp_all add: LSM6DSL_WriteReg_def Let_def split: bus_resp.split)

lemma ReadData_world [simp]:
  fixes w :: world
  shows "xSensorStats (snd (snd (LSM6DSL_ReadData d w))) = xSensorStats w"
    "retry_count (snd (snd (LSM6DSL_ReadData d w))) = retry_count w"
    "ucSensorEnabled (snd (snd (LSM6DSL_ReadData d w))) = ucSensorEnabled w"
    "queue_rsp (snd (snd (LSM6DSL_ReadData d w))) = queue_rsp w"
    "queue_n (snd (snd (LSM6DSL_ReadData d w))) = queue_n w"
    "queue_sent (snd (snd (LSM6DSL_ReadData d w))) = queue_sent w"
    "uart_log (snd (snd (LSM6DSL_ReadData d w))) = uart_log w"
    "init_attempts (snd (snd (LSM6DSL_ReadData d w))) = init_attempts w"
    "accel_sensitivity (snd (snd (LSM6DSL_ReadData d w))) = accel_sensitivity w"
    "gyro_sensitivity (snd (snd (LSM6DSL_ReadData d w))) = gyro_sensitivity w"
  by (simp_all add: LSM6DSL_ReadData_def GetStatus_eq xTaskGetTickCount_def Let_def split_beta
      ReadReg_init_attempts)

lemma read_sensors_world [simp]:
  "xSensorStats (snd (snd (snd (SensorAcqTask_read_sensors w)))) = xSensorStats w"
  "retry_count (snd (snd (snd (SensorAcqTask_read_sensors w)))) = retry_count w"
  "ucSensorEnabled (snd (snd (snd (SensorAcqTask_read_sensors w)))) = ucSensorEnabled w"
  "queue_rsp (snd (snd (snd (SensorAcqTask_read_sensors w)))) = queue_rsp w"
  "queue_n (snd (snd (snd (SensorAcqTask_read_sensors w)))) = queue_n w"
  "queue_sent (snd (snd (snd (SensorAcqTask_read_sensors w)))) = queue_sent w"
  "uart_log (snd (snd (snd (SensorAcqTask_read_sensors w)))) = uart_log w"
  "init_attempts (snd (snd (snd (SensorAcqTask_read_sensors w)))) = init_attempts w"
  "accel_sensitivity (snd (snd (snd (SensorAcqTask_read_sensors w)))) = accel_sensitivity w"
  "gyro_sensitivity (snd (snd (snd (SensorAcqTask_read_sensors w)))) = gyro_sensitivity w"
  by (simp_all add: SensorAcqTask_read_sensors_def SensorAcq_ReadIMU_def SensorAcq_ReadPressure_def
      SensorAcq_ReadHumidity_def rand_def xTaskGetTickCount_def Let_def split_beta)

lemma ReadWhoAmI_eq:
  "LSM6DSL_ReadWhoAmI v w =
     (fst (LSM6DSL_ReadReg LSM6DSL_WHO_AM_I [v] 1 w),
      fst (snd (LSM6DSL_ReadReg LSM6DSL_WHO_AM_I [v] 1 w)) ! 0,
      snd (snd (LSM6DSL_ReadReg LSM6DSL_WHO_AM_I [v] 1 w)))"
  by (simp add: LSM6DSL_ReadWhoAmI_def split_beta)

lemma UpdateSensitivity_world [simp]:
  fixes w :: world
  shows "xSensorStats (LSM6DSL_UpdateSensitivity a g w) = xSensorStats w"
    "retry_count (LSM6DSL_UpdateSensitivity a g w) = retry_count w"
    "ucSensorEnabled (LSM6DSL_UpdateSensitivity a g w) = ucSensorEnabled w"
    "uart_log (LSM6DSL_UpdateSensitivity a g w) = uart_log w"
    "tick_n (LSM6DSL_UpdateSensitivity a g w) = tick_n w"
    "tick_src (LSM6DSL_UpdateSensitivity a g w) = tick_src w"
    "init_attempts (LSM6DSL_UpdateSensitivity a g w) = init_attempts w"
  by (simp_all add: LSM6DSL_UpdateSensitivity_def Let_def)

lemma ReadReg_ticks [simp]:
  "tick_n (snd (snd (LSM6DSL_ReadReg r d n w))) = tick_n w"
  "tick_src (snd (snd (LSM6DSL_ReadReg r d n w))) = tick_src w"
  by (simp_all add: LSM6DSL_ReadReg_def Let_def split: bus_resp.split)

lemma WriteReg_ticks [simp]:
  "tick_n (snd (LSM6DSL_WriteReg r d n w)) = tick_n w"
  "tick_src (snd (LSM6DSL_WriteReg r d n w)) = tick_src w"
  by (simp_all add: LSM6DSL_WriteReg_def Let_def split: bus_resp.split)

lemma LSM6DSL_Init_world [simp]:
  fixes w :: world
  shows "xSensorStats (snd (LSM6DSL_Init c w)) = xSensorStats w"
    "retry_count (snd (LSM6DSL_Init c w)) = retry_count w"
    "ucSensorEnabled (snd (LSM6DSL_Init c w)) = ucSensorEnabled w"
    "uart_log (snd (LSM6DSL_Init c w)) = uart_log w"
    "tick_n (snd (LSM6DSL_Init c w)) = tick_n w"
    "tick_src (snd (LSM6DSL_Init c w)) = tick_src w"
    "init_attempts (snd (LSM6DSL_Init c w)) = Suc (init_attempts w)"
  by (simp_all add: LSM6DSL_Init_def ReadWhoAmI_eq LSM6DSL_SoftReset_def Let_def split_beta
      ReadReg_init_attempts)

lemma SensorAcq_Init_world [simp]:
  "retry_count (snd (SensorAcq_Init w)) = retry_count w"
  "ucSensorEnabled (snd (SensorAcq_Init w)) = ucSensorEnabled w"
  "init_attempts (snd (SensorAcq_Init w)) = Suc (init_attempts w)"
  by (simp_all add: SensorAcq_Init_def set_state_def SensorAcq_LogError_def xTaskGetTickCount_def
      Let_def split_beta)

lemma SensorAcq_Init_ok:
  "fst (SensorAcq_Init w) = HAL_OK \<Longrightarrow>
   xSensorStats (snd (SensorAcq_Init w)) = SensorAcqStats_zero \<and>
   uart_log (snd (SensorAcq_Init w)) = uart_log w"
  by (simp add: SensorAcq_Init_def set_state_def SensorAcq_LogError_def xTaskGetTickCount_def
      SensorAcqStats_zero_def Let_def split_beta split: if_splits)

lemma SensorAcq_Init_failed:
  "fst (SensorAcq_Init w) \<noteq> HAL_OK \<Longrightarrow>
   xSensorStats (snd (SensorAcq_Init w)) = SensorAcqStats_zero\<lparr>state := SENSOR_ACQ_ERROR\<rparr> \<and>
   fst (last (uart_log (snd (SensorAcq_Init w)))) = ''LSM6DSL initialization failed''"
  by (simp add: SensorAcq_Init_def set_state_def SensorAcq_LogError_def xTaskGetTickCount_def
      SensorAcqStats_zero_def Let_def split_beta split: if_splits)

subsection \<open>Failing cycles\<close>

text \<open>
  A failing cycle below the threshold only counts. A failing cycle that reaches the
  threshold is \<open>SensorAcq_Init\<close> run from \<open>before_reinit\<close>, followed by the transition to
  \<open>SENSOR_ACQ_RUNNING\<close> when it succeeded.
\<close>

lemma cycle_failure_counted:
  assumes "cycle_failed w" and "\<not> SENSOR_MAX_RETRY_COUNT \<le> retry_count w + 1"
  shows "retry_count (SensorAcqTask_cycle w) = retry_count w + 1"
    and "xSensorStats (SensorAcqTask_cycle w) =
           (xSensorStats w)\<lparr>error_count := error_count (xSensorStats w) + 1\<rparr>"
    and "init_attempts (SensorAcqTask_cycle w) = init_attempts w"
  using assms
  by (simp_all add: SensorAcqTask_cycle_def cycle_failed_def count_error_def Let_def split_beta)

lemma cycle_failure_reinit:
  assumes "cycle_failed w" and "SENSOR_MAX_RETRY_COUNT \<le> retry_count w + 1"
  shows "SensorAcqTask_cycle w =
     (let (status, w') = SensorAcq_Init (before_reinit w);
          w' = (if status = HAL_OK then
                  SensorAcq_LogError ''Sensor reinitialized successfully''
                    (set_state SENSOR_ACQ_RUNNING w')
                else w')
      in w'\<lparr>xLastWakeTime := xLastWakeTime w' + 10\<rparr>)"
  using assms
  by (simp add: SensorAcqTask_cycle_def cycle_failed_def before_reinit_def count_error_def
      Let_def split_beta)

lemma before_reinit_world:
  "retry_count (before_reinit w) = 0"
  "state (xSensorStats (before_reinit w)) = SENSOR_ACQ_ERROR"
  "init_attempts (before_reinit w) = init_attempts w"
  by (simp_all add: before_reinit_def count_error_def set_state_def SensorAcq_LogError_def
      xTaskGetTickCount_def Let_def split_beta)

lemma cycle_reinit_counts:
  assumes "cycle_failed w" and "SENSOR_MAX_RETRY_COUNT \<le> retry_count w + 1"
  shows "retry_count (SensorAcqTask_cycle w) = 0"
    and "init_attempts (SensorAcqTask_cycle w) = Suc (init_attempts w)"
  by (simp_all add: cycle_failure_reinit [OF assms] before_reinit_world set_state_def
      SensorAcq_LogError_def xTaskGetTickCount_def Let_def split_beta)

lemma cycle_reinit_ok:
  assumes "cycle_failed w" and "SENSOR_MAX_RETRY_COUNT \<le> retry_count w + 1"
    and "fst (SensorAcq_Init (before_reinit w)) = HAL_OK"
  shows "state (xSensorStats (SensorAcqTask_cycle w)) = SENSOR_ACQ_RUNNING"
    and "fst (last (uart_log (SensorAcqTask_cycle w))) = ''Sensor reinitialized successfully''"
  using assms(3)
  by (simp_all add: cycle_failure_reinit [OF assms(1,2)] set_state_def
      SensorAcq_LogError_def xTaskGetTickCount_def Let_def split_beta)

lemma cycle_reinit_failed:
  assumes "cycle_failed w" and "SENSOR_MAX_RETRY_COUNT \<le> retry_count w + 1"
    and "fst (SensorAcq_Init (before_reinit w)) \<noteq> HAL_OK"
  shows "state (xSensorStats (SensorAcqTask_cycle w)) = SENSOR_ACQ_ERROR"
    and "fst (last (uart_log (SensorAcqTask_cycle w))) = ''LSM6DSL initialization failed''"
  using assms(3) SensorAcq_Init_failed [OF assms(3)]
  by (simp_all add: cycle_failure_reinit [OF assms(1,2)] Let_def split_beta)


subsection \<open>Cycles by the answers of the bus\<close>

lemma ReadData_bus [simp]:
  "bus_rsp (snd (snd (LSM6DSL_ReadData d w))) = bus_rsp w"
  by (simp add: LSM6DSL_ReadData_def GetStatus_eq xTaskGetTickCount_def Let_def split_beta)

lemma read_sensors_bus [simp]:
  "bus_rsp (snd (snd (snd (SensorAcqTask_read_sensors w)))) = bus_rsp w"
  by (simp add: SensorAcqTask_read_sensors_def SensorAcq_ReadIMU_def SensorAcq_ReadPressure_def
      SensorAcq_ReadHumidity_def rand_def xTaskGetTickCount_def Let_def split_beta)

lemma read_sensors_status:
  "fst (SensorAcqTask_read_sensors w) =
     fst (LSM6DSL_ReadData LSM6DSL_Data_zero (w\<lparr>tick_n := Suc (tick_n w)\<rparr>))"
  by (simp add: SensorAcqTask_read_sensors_def SensorAcq_ReadIMU_def SensorAcq_ReadPressure_def
      SensorAcq_ReadHumidity_def rand_def xTaskGetTickCount_def Let_def split_beta)

lemma read_sensors_reg_ops:
  "reg_ops (snd (snd (snd (SensorAcqTask_read_sensors w)))) =
     reg_ops (snd (snd (LSM6DSL_ReadData LSM6DSL_Data_zero (w\<lparr>tick_n := Suc (tick_n w)\<rparr>))))"
  by (simp add: SensorAcqTask_read_sensors_def SensorAcq_ReadIMU_def SensorAcq_ReadPressure_def
      SensorAcq_ReadHumidity_def rand_def xTaskGetTickCount_def Let_def split_beta)

lemma ReadData_timeout:
  assumes "bus_rsp w (length (reg_ops w)) = MutexTimeout"
  shows "fst (LSM6DSL_ReadData d w) = HAL_TIMEOUT"
    and "reg_ops (snd (snd (LSM6DSL_ReadData d w))) = reg_ops w @ [RegRead LSM6DSL_STATUS_REG 1]"
  using assms
  by (simp_all add: LSM6DSL_ReadData_def LSM6DSL_GetStatus_def LSM6DSL_ReadReg_def Let_def)

lemma ReadData_ok:
  assumes "bus_rsp w (length (reg_ops w)) = Transfer HAL_OK rx"
    and "bus_rsp w (Suc (length (reg_ops w))) = Transfer HAL_OK rx'"
  shows "fst (LSM6DSL_ReadData d w) = HAL_OK"
  using assms
  by (simp add: LSM6DSL_ReadData_def LSM6DSL_GetStatus_def LSM6DSL_ReadReg_def
      xTaskGetTickCount_def Let_def)

lemma read_sensors_timeout:
  assumes "bus_rsp w (length (reg_ops w)) = MutexTimeout"
  shows "fst (SensorAcqTask_read_sensors w) = HAL_TIMEOUT"
    and "reg_ops (snd (snd (snd (SensorAcqTask_read_sensors w)))) =
           reg_ops w @ [RegRead LSM6DSL_STATUS_REG 1]"
  using assms ReadData_timeout [of "w\<lparr>tick_n := Suc (tick_n w)\<rparr>" LSM6DSL_Data_zero]
  by (simp_all add: read_sensors_status read_sensors_reg_ops)

lemma read_sensors_ok:
  assumes "bus_rsp w (length (reg_ops w)) = Transfer HAL_OK rx"
    and "bus_rsp w (Suc (length (reg_ops w))) = Transfer HAL_OK rx'"
  shows "fst (SensorAcqTask_read_sensors w) = HAL_OK"
  using assms ReadData_ok [of "w\<lparr>tick_n := Suc (tick_n w)\<rparr>" rx rx' LSM6DSL_Data_zero]
  by (simp add: read_sensors_status)

lemma Init_bus_ok:
  assumes "bus_rsp w (length (reg_ops w)) = Transfer HAL_OK (0x6A # rx0)"
    and "bus_rsp w (Suc (length (reg_ops w))) = Transfer HAL_OK rx1"
    and "bus_rsp w (Suc (Suc (length (reg_ops w)))) = Transfer HAL_OK rx2"
    and "bus_rsp w (Suc (Suc (Suc (length (reg_ops w))))) = Transfer HAL_OK rx3"
    and "bus_rsp w (Suc (Suc (Suc (Suc (length (reg_ops w)))))) = Transfer HAL_OK rx4"
  shows "fst (LSM6DSL_Init c w) = HAL_OK"
  using assms by (simp add: init_eval)

lemma SensorAcq_Init_status:
  "fst (SensorAcq_Init w) =
     fst (LSM6DSL_Init
       \<lparr>accel_odr = LSM6DSL_XL_ODR_104_HZ, accel_fs = LSM6DSL_XL_FS_2G,
        gyro_odr = LSM6DSL_GY_ODR_104_HZ, gyro_fs = LSM6DSL_GY_FS_250_DPS, fifo_enable = 0\<rparr> w)"
proof -
  have "fst (LSM6DSL_Init c (w\<lparr>xSensorStats := s, xIMUConfig := c'\<rparr>)) = fst (LSM6DSL_Init c w)" for c c' s
    by (simp add: LSM6DSL_Init_def LSM6DSL_ReadWhoAmI_def LSM6DSL_SoftReset_def LSM6DSL_ReadReg_def
        LSM6DSL_WriteReg_def Let_def split: bus_resp.split)
  then show ?thesis
    by (simp add: SensorAcq_Init_def set_state_def Let_def split_beta)
qed

lemma before_reinit_bus:
  "bus_rsp (before_reinit w) = bus_rsp w"
  "reg_ops (before_reinit w) = reg_ops (snd (snd (snd (SensorAcqTask_read_sensors w))))"
  by (simp_all add: before_reinit_def count_error_def set_state_def SensorAcq_LogError_def
      xTaskGetTickCount_def Let_def split_beta)

lemma LSM6DSL_Init_bus [simp]:
  "bus_rsp (snd (LSM6DSL_Init c w)) = bus_rsp w"
  by (simp add: LSM6DSL_Init_def ReadWhoAmI_eq LSM6DSL_SoftReset_def LSM6DSL_UpdateSensitivity_def
      Let_def split_beta)

lemma SensorAcq_Init_bus [simp]:
  "bus_rsp (snd (SensorAcq_Init w)) = bus_rsp w"
  by (simp add: SensorAcq_Init_def set_state_def SensorAcq_LogError_def xTaskGetTickCount_def
      Let_def split_beta)

lemma cycle_failure_counted_env:
  assumes "cycle_failed w" and "\<not> SENSOR_MAX_RETRY_COUNT \<le> retry_count w + 1"
  shows "ucSensorEnabled (SensorAcqTask_cycle w) = ucSensorEnabled w"
    and "bus_rsp (SensorAcqTask_cycle w) = bus_rsp w"
    and "reg_ops (SensorAcqTask_cycle w) = reg_ops (snd (snd (snd (SensorAcqTask_read_sensors w))))"
  using assms
  by (simp_all add: SensorAcqTask_cycle_def cycle_failed_def count_error_def Let_def split_beta)

lemma cycle_reinit_env:
  assumes "cycle_failed w" and "SENSOR_MAX_RETRY_COUNT \<le> retry_count w + 1"
  shows "ucSensorEnabled (SensorAcqTask_cycle w) = ucSensorEnabled w"
    and "bus_rsp (SensorAcqTask_cycle w) = bus_rsp w"
  by (simp_all add: cycle_failure_reinit [OF assms] before_reinit_def count_error_def set_state_def
      SensorAcq_LogError_def xTaskGetTickCount_def Let_def split_beta)

lemma timeout_failed:
  assumes "ucSensorEnabled w \<noteq> 0" and "bus_rsp w (length (reg_ops w)) = MutexTimeout"
  shows "cycle_failed w"
  using assms read_sensors_timeout(1) [of w] by (simp add: cycle_failed_def)

lemma timeout_counted:
  assumes "ucSensorEnabled w \<noteq> 0" and "bus_rsp w (length (reg_ops w)) = MutexTimeout"
    and "\<not> SENSOR_MAX_RETRY_COUNT \<le> retry_count w + 1"
  shows "ucSensorEnabled (SensorAcqTask_cycle w) = ucSensorEnabled w"
    and "bus_rsp (SensorAcqTask_cycle w) = bus_rsp w"
    and "reg_ops (SensorAcqTask_cycle w) = reg_ops w @ [RegRead LSM6DSL_STATUS_REG 1]"
    and "retry_count (SensorAcqTask_cycle w) = retry_count w + 1"
    and "init_attempts (SensorAcqTask_cycle w) = init_attempts w"
  using cycle_failure_counted_env [OF timeout_failed [OF assms(1,2)] assms(3)]
    cycle_failure_counted [OF timeout_failed [OF assms(1,2)] assms(3)]
    read_sensors_timeout(2) [OF assms(2)]
  by simp_all

text \<open>
  The state in which the loop begins, when the bus is healthy during the initialization at
  start-up.
\<close>

lemma boot_init_ok:
  assumes "\<And>n. n < 5 \<Longrightarrow> bus n = Transfer HAL_OK (replicate 14 0x6A)"
  shows "fst (SensorAcq_Init (boot bus q)) = HAL_OK"
proof -
  have ok: "bus n = Transfer HAL_OK (0x6A # replicate 13 0x6A)" if "n < 5" for n
    using assms [OF that] by (simp add: numeral_eq_Suc)
  have "fst (LSM6DSL_Init c (boot bus q)) = HAL_OK" for c
    by (rule Init_bus_ok) (simp_all add: boot_def ok)
  then show ?thesis by (simp add: SensorAcq_Init_status)
qed

lemma Init_ok_reg_ops:
  assumes "fst (LSM6DSL_Init c w) = HAL_OK"
  shows "length (reg_ops (snd (LSM6DSL_Init c w))) = length (reg_ops w) + 5"
  using assms
  by (simp add: LSM6DSL_Init_def ReadWhoAmI_eq LSM6DSL_SoftReset_def LSM6DSL_UpdateSensitivity_def
      Let_def split_beta split: if_splits)

lemma SensorAcq_Init_ok_reg_ops:
  assumes "fst (SensorAcq_Init w) = HAL_OK"
  shows "length (reg_ops (snd (SensorAcq_Init w))) = length (reg_ops w) + 5"
proof -
  let ?c = "\<lparr>accel_odr = LSM6DSL_XL_ODR_104_HZ, accel_fs = LSM6DSL_XL_FS_2G,
        gyro_odr = LSM6DSL_GY_ODR_104_HZ, gyro_fs = LSM6DSL_GY_FS_250_DPS, fifo_enable = 0\<rparr>"
  let ?w = "w\<lparr>xSensorStats := SensorAcqStats_zero\<lparr>state := SENSOR_ACQ_INIT\<rparr>, xIMUConfig := ?c\<rparr>"
  have eq: "SensorAcq_Init w =
      (if fst (LSM6DSL_Init ?c ?w) \<noteq> HAL_OK
       then (fst (LSM6DSL_Init ?c ?w),
             set_state SENSOR_ACQ_ERROR
               (SensorAcq_LogError ''LSM6DSL initialization failed'' (snd (LSM6DSL_Init ?c ?w))))
       else (HAL_OK, set_state SENSOR_ACQ_INIT (snd (LSM6DSL_Init ?c ?w))))"
    by (simp add: SensorAcq_Init_def set_state_def Let_def split_beta)
  from assms have ok: "fst (LSM6DSL_Init ?c ?w) = HAL_OK"
    by (simp add: eq split: if_splits)
  show ?thesis
    using Init_ok_reg_ops [OF ok] ok by (simp add: eq set_state_def)
qed

lemma entry_world:
  "ucSensorEnabled (SensorAcqTask_entry w) = 1"
  "retry_count (SensorAcqTask_entry w) = 0"
  "reg_ops (SensorAcqTask_entry w) = reg_ops w"
  "bus_rsp (SensorAcqTask_entry w) = bus_rsp w"
  "queue_rsp (SensorAcqTask_entry w) = queue_rsp w"
  "queue_n (SensorAcqTask_entry w) = queue_n w"
  "xSensorStats (SensorAcqTask_entry w) = (xSensorStats w)\<lparr>state := SENSOR_ACQ_RUNNING\<rparr>"
  "init_attempts (SensorAcqTask_entry w) = init_attempts w"
  by (simp_all add: SensorAcqTask_entry_def set_state_def SensorAcq_LogError_def
      xTaskGetTickCount_def init_attempts_def)

lemma LSM6DSL_Init_queue [simp]:
  fixes w :: world
  shows "queue_rsp (snd (LSM6DSL_Init c w)) = queue_rsp w"
    "queue_n (snd (LSM6DSL_Init c w)) = queue_n w"
    "queue_sent (snd (LSM6DSL_Init c w)) = queue_sent w"
  by (simp_all add: LSM6DSL_Init_def ReadWhoAmI_eq LSM6DSL_SoftReset_def
      LSM6DSL_UpdateSensitivity_def Let_def split_beta)

lemma SensorAcq_Init_queue [simp]:
  "queue_rsp (snd (SensorAcq_Init w)) = queue_rsp w"
  "queue_n (snd (SensorAcq_Init w)) = queue_n w"
  "queue_sent (snd (SensorAcq_Init w)) = queue_sent w"
  by (simp_all add: SensorAcq_Init_def set_state_def SensorAcq_LogError_def xTaskGetTickCount_def
      Let_def split_beta)

lemma start_world:
  assumes "\<And>n. n < 5 \<Longrightarrow> bus n = Transfer HAL_OK (replicate 14 0x6A)"
  shows "fst (SensorAcq_Init (boot bus q)) = HAL_OK"
    and "ucSensorEnabled (start bus q) = 1"
    and "retry_count (start bus q) = 0"
    and "length (reg_ops (start bus q)) = 5"
    and "bus_rsp (start bus q) = bus"
    and "queue_rsp (start bus q) = q"
    and "queue_n (start bus q) = 0"
    and "xSensorStats (start bus q) = SensorAcqStats_zero\<lparr>state := SENSOR_ACQ_RUNNING\<rparr>"
    and "init_attempts (start bus q) = 1"
proof -
  show ok: "fst (SensorAcq_Init (boot bus q)) = HAL_OK"
    by (rule boot_init_ok [OF assms])
  show "ucSensorEnabled (start bus q) = 1" "retry_count (start bus q) = 0"
    by (simp_all add: start_def entry_world)
  show "length (reg_ops (start bus q)) = 5"
    using SensorAcq_Init_ok_reg_ops [OF ok] by (simp add: start_def entry_world boot_def)
  show "bus_rsp (start bus q) = bus"
    by (simp add: start_def entry_world boot_def)
  show "queue_rsp (start bus q) = q" "queue_n (start bus q) = 0"
    by (simp_all add: start_def entry_world boot_def)
  show "xSensorStats (start bus q) = SensorAcqStats_zero\<lparr>state := SENSOR_ACQ_RUNNING\<rparr>"
    using SensorAcq_Init_ok [OF ok] by (simp add: start_def entry_world SensorAcqStats_zero_def)
  have "init_attempts (boot bus q) = 0"
    by (simp add: boot_def init_attempts_def)
  then show "init_attempts (start bus q) = 1"
    by (simp add: start_def entry_world)
qed

lemma SensorAcq_Init_timeout:
  assumes "bus_rsp w (length (reg_ops w)) = MutexTimeout"
  shows "fst (SensorAcq_Init w) \<noteq> HAL_OK"
    and "length (reg_ops (snd (SensorAcq_Init w))) = Suc (length (reg_ops w))"
  using assms
  by (simp_all add: SensorAcq_Init_def LSM6DSL_Init_def LSM6DSL_ReadWhoAmI_def LSM6DSL_ReadReg_def
      set_state_def SensorAcq_LogError_def xTaskGetTickCount_def Let_def)

lemma cycle_reinit_reg_ops:
  assumes "cycle_failed w" and "SENSOR_MAX_RETRY_COUNT \<le> retry_count w + 1"
  shows "reg_ops (SensorAcqTask_cycle w) = reg_ops (snd (SensorAcq_Init (before_reinit w)))"
  by (simp add: cycle_failure_reinit [OF assms] set_state_def SensorAcq_LogError_def
      xTaskGetTickCount_def Let_def split_beta)

subsection \<open>A failed enqueue\<close>

lemma UpdateStats_world [simp]:
  "error_count (xSensorStats (SensorAcq_UpdateStats t w)) = error_count (xSensorStats w)"
  "state (xSensorStats (SensorAcq_UpdateStats t w)) = state (xSensorStats w)"
  "retry_count (SensorAcq_UpdateStats t w) = retry_count w"
  "init_attempts (SensorAcq_UpdateStats t w) = init_attempts w"
  "accel_sensitivity (SensorAcq_UpdateStats t w) = accel_sensitivity w"
  "gyro_sensitivity (SensorAcq_UpdateStats t w) = gyro_sensitivity w"
  "queue_sent (SensorAcq_UpdateStats t w) = queue_sent w"
  "uart_log (SensorAcq_UpdateStats t w) = uart_log w"
  "xLastWakeTime (SensorAcq_UpdateStats t w) = xLastWakeTime w"
  by (simp_all add: SensorAcq_UpdateStats_def Let_def)

text \<open>
  C4. In a cycle of the enabled task in which every sensor read succeeds and the queue does
  not accept the sample, the error counter goes up by one, the consecutive-failure counter
  is not incremented (it is reset to 0), the lifecycle state stays what it was, and no
  driver initialization is attempted: the cached sensitivities are untouched and the only
  trace is the logged message.
\<close>

theorem C4_failed_enqueue:
  assumes "ucSensorEnabled w \<noteq> 0"
    and "fst (SensorAcqTask_read_sensors w) = HAL_OK"
    and "\<not> queue_rsp w (queue_n w)"
  shows "error_count (xSensorStats (SensorAcqTask_cycle w)) = error_count (xSensorStats w) + 1 \<and>
         retry_count (SensorAcqTask_cycle w) = 0 \<and>
         state (xSensorStats (SensorAcqTask_cycle w)) = state (xSensorStats w) \<and>
         init_attempts (SensorAcqTask_cycle w) = init_attempts w \<and>
         accel_sensitivity (SensorAcqTask_cycle w) = accel_sensitivity w \<and>
         gyro_sensitivity (SensorAcqTask_cycle w) = gyro_sensitivity w \<and>
         queue_sent (SensorAcqTask_cycle w) = queue_sent w \<and>
         fst (last (uart_log (SensorAcqTask_cycle w))) = ''Failed to send sensor data to queue''"
  using assms
  by (simp add: SensorAcqTask_cycle_def xQueueSend_def count_error_def SensorAcq_LogError_def
      xTaskGetTickCount_def Let_def split_beta)

text \<open>
  The first cycle on the healthy bus with a full queue: the error counter goes from 0 to 1,
  the state stays \<open>SENSOR_ACQ_RUNNING\<close>, and the initialization of the start-up remains the
  only one.
\<close>

theorem C4_failed_enqueue_witness:
  "ucSensorEnabled world_full \<noteq> 0 \<and>
   fst (SensorAcqTask_read_sensors world_full) = HAL_OK \<and>
   error_count (xSensorStats world_full) = 0 \<and>
   error_count (xSensorStats (SensorAcqTask_cycle world_full)) = 1 \<and>
   retry_count (SensorAcqTask_cycle world_full) = 0 \<and>
   state (xSensorStats (SensorAcqTask_cycle world_full)) = SENSOR_ACQ_RUNNING \<and>
   init_attempts (SensorAcqTask_cycle world_full) = 1"
proof -
  have healthy: "bus_present n = Transfer HAL_OK (replicate 14 0x6A)" for n
    by (simp add: bus_present_def)
  note s0 = start_world [of bus_present queue_full, OF healthy, folded world_full_def]
  have en: "ucSensorEnabled world_full \<noteq> 0"
    by (simp add: s0(2))
  have rd: "fst (SensorAcqTask_read_sensors world_full) = HAL_OK"
    by (rule read_sensors_ok [where rx = "replicate 14 0x6A" and rx' = "replicate 14 0x6A"])
      (simp_all add: s0(5) healthy)
  have full: "\<not> queue_rsp world_full (queue_n world_full)"
    by (simp add: s0(6,7) queue_full_def)
  show ?thesis
    using C4_failed_enqueue [OF en rd full] en rd
    by (simp add: s0(8,9) SensorAcqStats_zero_def)
qed

subsection \<open>Consecutive failures\<close>

text \<open>
  C2 (as amended). From any state with the consecutive-failure counter 0, let three cycles
  in a row fail. The first two only count: the counter becomes 1 and 2, the lifecycle state
  is untouched and no reinitialization is attempted. In the third failing cycle itself,
  not on the cycle after it, the state is set to \<open>SENSOR_ACQ_ERROR\<close>, the counter is reset to
  0 and \<open>SensorAcq_Init\<close> is called, once. If that call succeeds the cycle ends in
  \<open>SENSOR_ACQ_RUNNING\<close>, having logged the success; if it fails the cycle ends in
  \<open>SENSOR_ACQ_ERROR\<close>, having logged the failure. The counter is 0 after the cycle either
  way.
\<close>

theorem C2_three_failures:
  assumes "retry_count w = 0"
    and "cycle_failed w"
    and "cycle_failed (SensorAcqTask_cycles 1 w)"
    and "cycle_failed (SensorAcqTask_cycles 2 w)"
  shows "retry_count (SensorAcqTask_cycles 1 w) = 1 \<and>
         retry_count (SensorAcqTask_cycles 2 w) = 2 \<and>
         state (xSensorStats (SensorAcqTask_cycles 1 w)) = state (xSensorStats w) \<and>
         state (xSensorStats (SensorAcqTask_cycles 2 w)) = state (xSensorStats w) \<and>
         init_attempts (SensorAcqTask_cycles 1 w) = init_attempts w \<and>
         init_attempts (SensorAcqTask_cycles 2 w) = init_attempts w \<and>
         state (xSensorStats (before_reinit (SensorAcqTask_cycles 2 w))) = SENSOR_ACQ_ERROR \<and>
         retry_count (before_reinit (SensorAcqTask_cycles 2 w)) = 0 \<and>
         init_attempts (before_reinit (SensorAcqTask_cycles 2 w)) = init_attempts w \<and>
         init_attempts (SensorAcqTask_cycles 3 w) = init_attempts w + 1 \<and>
         retry_count (SensorAcqTask_cycles 3 w) = 0 \<and>
         (fst (SensorAcq_Init (before_reinit (SensorAcqTask_cycles 2 w))) = HAL_OK \<longrightarrow>
            state (xSensorStats (SensorAcqTask_cycles 3 w)) = SENSOR_ACQ_RUNNING \<and>
            fst (last (uart_log (SensorAcqTask_cycles 3 w))) = ''Sensor reinitialized successfully'') \<and>
         (fst (SensorAcq_Init (before_reinit (SensorAcqTask_cycles 2 w))) \<noteq> HAL_OK \<longrightarrow>
            state (xSensorStats (SensorAcqTask_cycles 3 w)) = SENSOR_ACQ_ERROR \<and>
            fst (last (uart_log (SensorAcqTask_cycles 3 w))) = ''LSM6DSL initialization failed'')"
proof -
  define w1 where "w1 = SensorAcqTask_cycle w"
  define w2 where "w2 = SensorAcqTask_cycle w1"
  define w3 where "w3 = SensorAcqTask_cycle w2"
  have c1: "SensorAcqTask_cycles 1 w = w1" by (simp add: w1_def)
  have c2: "SensorAcqTask_cycles 2 w = w2"
    by (simp add: w1_def w2_def numeral_2_eq_2)
  have c3: "SensorAcqTask_cycles 3 w = w3"
    by (simp add: w1_def w2_def w3_def numeral_3_eq_3)
  have f1: "cycle_failed w1" and f2: "cycle_failed w2"
    using assms(3,4) unfolding c1 c2 by simp_all
  have b0: "\<not> SENSOR_MAX_RETRY_COUNT \<le> retry_count w + 1"
    using assms(1) by (simp add: word_le_nat_alt)
  note s1 = cycle_failure_counted [OF assms(2) b0, folded w1_def]
  have r1: "retry_count w1 = 1"
    using s1(1) assms(1) by simp
  have b1: "\<not> SENSOR_MAX_RETRY_COUNT \<le> retry_count w1 + 1"
    by (simp add: r1 word_le_nat_alt)
  note s2 = cycle_failure_counted [OF f1 b1, folded w2_def]
  have r2: "retry_count w2 = 2"
    using s2(1) r1 by simp
  have b2: "SENSOR_MAX_RETRY_COUNT \<le> retry_count w2 + 1"
    by (simp add: r2 word_le_nat_alt)
  note k3 = cycle_reinit_counts [OF f2 b2, folded w3_def]
  note ok3 = cycle_reinit_ok [OF f2 b2, folded w3_def]
  note bad3 = cycle_reinit_failed [OF f2 b2, folded w3_def]
  show ?thesis
    unfolding c1 c2 c3
    using r1 r2 s1(2,3) s2(2,3) k3 ok3 bad3 before_reinit_world [of w2]
    by simp
qed

text \<open>
  The bus with the glitch: the status reads of the first three cycles time out on the
  mutex, and the reinitialization of the third cycle finds a healthy bus.
\<close>

lemma glitch_cycles:
  "cycle_failed world_glitch"
  "cycle_failed (SensorAcqTask_cycles 1 world_glitch)"
  "cycle_failed (SensorAcqTask_cycles 2 world_glitch)"
  "fst (SensorAcq_Init (before_reinit (SensorAcqTask_cycles 2 world_glitch))) = HAL_OK"
proof -
  define w1 where "w1 = SensorAcqTask_cycle world_glitch"
  define w2 where "w2 = SensorAcqTask_cycle w1"
  have c1: "SensorAcqTask_cycles 1 world_glitch = w1" by (simp add: w1_def)
  have c2: "SensorAcqTask_cycles 2 world_glitch = w2" by (simp add: w1_def w2_def numeral_2_eq_2)
  have healthy: "bus_glitch n = Transfer HAL_OK (replicate 14 0x6A)" if "n < 5" for n
    using that by (simp add: bus_glitch_def)
  note s0 = start_world [of bus_glitch queue_free, OF healthy, folded world_glitch_def]
  have e0: "ucSensorEnabled world_glitch \<noteq> 0" by (simp add: s0(2))
  have t0: "bus_rsp world_glitch (length (reg_ops world_glitch)) = MutexTimeout"
    by (simp add: s0(4,5) bus_glitch_def)
  have n0: "\<not> SENSOR_MAX_RETRY_COUNT \<le> retry_count world_glitch + 1"
    by (simp add: s0(3) word_le_nat_alt)
  note s1 = timeout_counted [OF e0 t0 n0, folded w1_def]
  have e1: "ucSensorEnabled w1 \<noteq> 0" using s1(1) e0 by simp
  have t1: "bus_rsp w1 (length (reg_ops w1)) = MutexTimeout"
    by (simp add: s1(2,3) s0(4,5) bus_glitch_def)
  have n1: "\<not> SENSOR_MAX_RETRY_COUNT \<le> retry_count w1 + 1"
    by (simp add: s1(4) s0(3) word_le_nat_alt)
  note s2 = timeout_counted [OF e1 t1 n1, folded w2_def]
  have e2: "ucSensorEnabled w2 \<noteq> 0" using s2(1) e1 by simp
  have t2: "bus_rsp w2 (length (reg_ops w2)) = MutexTimeout"
    by (simp add: s2(2,3) s1(2,3) s0(4,5) bus_glitch_def)
  have ops: "length (reg_ops (before_reinit w2)) = 8"
    by (simp add: before_reinit_bus read_sensors_timeout(2) [OF t2] s2(3) s1(3) s0(4))
  have bus: "bus_rsp (before_reinit w2) = bus_glitch"
    by (simp add: before_reinit_bus s2(2) s1(2) s0(5))
  have ok: "bus_glitch n = Transfer HAL_OK (0x6A # replicate 13 0x6A)" if "8 \<le> n" for n
    using that by (simp add: bus_glitch_def numeral_eq_Suc)
  have init: "fst (LSM6DSL_Init c (before_reinit w2)) = HAL_OK" for c
    by (rule Init_bus_ok) (simp_all add: ops bus ok)
  show "cycle_failed world_glitch" by (rule timeout_failed [OF e0 t0])
  show "cycle_failed (SensorAcqTask_cycles 1 world_glitch)"
    unfolding c1 by (rule timeout_failed [OF e1 t1])
  show "cycle_failed (SensorAcqTask_cycles 2 world_glitch)"
    unfolding c2 by (rule timeout_failed [OF e2 t2])
  show "fst (SensorAcq_Init (before_reinit (SensorAcqTask_cycles 2 world_glitch))) = HAL_OK"
    unfolding c2 by (simp add: SensorAcq_Init_status init)
qed

lemma glitch_start:
  "retry_count world_glitch = 0" "init_attempts world_glitch = 1"
  "state (xSensorStats world_glitch) = SENSOR_ACQ_RUNNING"
proof -
  have healthy: "bus_glitch n = Transfer HAL_OK (replicate 14 0x6A)" if "n < 5" for n
    using that by (simp add: bus_glitch_def)
  note s0 = start_world [of bus_glitch queue_free, OF healthy, folded world_glitch_def]
  show "retry_count world_glitch = 0" "init_attempts world_glitch = 1"
    "state (xSensorStats world_glitch) = SENSOR_ACQ_RUNNING"
    by (simp_all add: s0)
qed

text \<open>
  On the bus with the glitch the counter goes 1, 2, 0; no initialization is attempted in
  the first two cycles (the count stays at the 1 of the start-up) and one in the third, which
  ends in \<open>SENSOR_ACQ_RUNNING\<close>.
\<close>

theorem C2_three_failures_witness:
  "retry_count (SensorAcqTask_cycles 1 world_glitch) = 1 \<and>
   retry_count (SensorAcqTask_cycles 2 world_glitch) = 2 \<and>
   retry_count (SensorAcqTask_cycles 3 world_glitch) = 0 \<and>
   state (xSensorStats (SensorAcqTask_cycles 2 world_glitch)) = SENSOR_ACQ_RUNNING \<and>
   init_attempts (SensorAcqTask_cycles 2 world_glitch) = 1 \<and>
   init_attempts (SensorAcqTask_cycles 3 world_glitch) = 2 \<and>
   state (xSensorStats (SensorAcqTask_cycles 3 world_glitch)) = SENSOR_ACQ_RUNNING"
  using C2_three_failures [OF glitch_start(1) glitch_cycles(1,2,3)] glitch_cycles(4) glitch_start
  by simp

text \<open>
  The lost bus: every cycle fails, and so does the reinitialization.
\<close>

lemma lost_cycles:
  "retry_count world_lost = 0"
  "cycle_failed world_lost"
  "cycle_failed (SensorAcqTask_cycles 1 world_lost)"
  "cycle_failed (SensorAcqTask_cycles 2 world_lost)"
  "cycle_failed (SensorAcqTask_cycles 3 world_lost)"
  "init_attempts world_lost = 1"
  "init_attempts (SensorAcqTask_cycles 2 world_lost) = 1"
  "init_attempts (SensorAcqTask_cycles 3 world_lost) = 2"
  "init_attempts (SensorAcqTask_cycles 4 world_lost) = 2"
  "state (xSensorStats (SensorAcqTask_cycles 3 world_lost)) = SENSOR_ACQ_ERROR"
  "retry_count (SensorAcqTask_cycles 4 world_lost) = 1"
proof -
  define w1 where "w1 = SensorAcqTask_cycle world_lost"
  define w2 where "w2 = SensorAcqTask_cycle w1"
  define w3 where "w3 = SensorAcqTask_cycle w2"
  define w4 where "w4 = SensorAcqTask_cycle w3"
  have c1: "SensorAcqTask_cycles 1 world_lost = w1" by (simp add: w1_def)
  have c2: "SensorAcqTask_cycles 2 world_lost = w2" by (simp add: w1_def w2_def numeral_2_eq_2)
  have c3: "SensorAcqTask_cycles 3 world_lost = w3"
    by (simp add: w1_def w2_def w3_def numeral_3_eq_3)
  have c4: "SensorAcqTask_cycles 4 world_lost = w4"
    by (simp add: w1_def w2_def w3_def w4_def numeral_eq_Suc)
  have healthy: "bus_lost n = Transfer HAL_OK (replicate 14 0x6A)" if "n < 5" for n
    using that by (simp add: bus_lost_def)
  have gone: "bus_lost n = MutexTimeout" if "5 \<le> n" for n
    using that by (simp add: bus_lost_def)
  note s0 = start_world [of bus_lost queue_free, OF healthy, folded world_lost_def]
  have e0: "ucSensorEnabled world_lost \<noteq> 0" by (simp add: s0(2))
  have t0: "bus_rsp world_lost (length (reg_ops world_lost)) = MutexTimeout"
    by (simp add: s0(4,5) gone)
  have n0: "\<not> SENSOR_MAX_RETRY_COUNT \<le> retry_count world_lost + 1"
    by (simp add: s0(3) word_le_nat_alt)
  note s1 = timeout_counted [OF e0 t0 n0, folded w1_def]
  have e1: "ucSensorEnabled w1 \<noteq> 0" using s1(1) e0 by simp
  have t1: "bus_rsp w1 (length (reg_ops w1)) = MutexTimeout"
    by (simp add: s1(2,3) s0(4,5) gone)
  have n1: "\<not> SENSOR_MAX_RETRY_COUNT \<le> retry_count w1 + 1"
    by (simp add: s1(4) s0(3) word_le_nat_alt)
  note s2 = timeout_counted [OF e1 t1 n1, folded w2_def]
  have e2: "ucSensorEnabled w2 \<noteq> 0" using s2(1) e1 by simp
  have t2: "bus_rsp w2 (length (reg_ops w2)) = MutexTimeout"
    by (simp add: s2(2,3) s1(2,3) s0(4,5) gone)
  have f2: "cycle_failed w2" by (rule timeout_failed [OF e2 t2])
  have n2: "SENSOR_MAX_RETRY_COUNT \<le> retry_count w2 + 1"
    by (simp add: s2(4) s1(4) s0(3) word_le_nat_alt)
  have ops: "length (reg_ops (before_reinit w2)) = 8"
    by (simp add: before_reinit_bus read_sensors_timeout(2) [OF t2] s2(3) s1(3) s0(4))
  have bus: "bus_rsp (before_reinit w2) = bus_lost"
    by (simp add: before_reinit_bus s2(2) s1(2) s0(5))
  have ti: "bus_rsp (before_reinit w2) (length (reg_ops (before_reinit w2))) = MutexTimeout"
    by (simp add: ops bus gone)
  note bad = SensorAcq_Init_timeout [OF ti]
  note k3 = cycle_reinit_counts [OF f2 n2, folded w3_def]
  note v3 = cycle_reinit_env [OF f2 n2, folded w3_def]
  note o3 = cycle_reinit_reg_ops [OF f2 n2, folded w3_def]
  note x3 = cycle_reinit_failed [OF f2 n2 bad(1), folded w3_def]
  have e3: "ucSensorEnabled w3 \<noteq> 0" using v3(1) e2 by simp
  have t3: "bus_rsp w3 (length (reg_ops w3)) = MutexTimeout"
    by (simp add: v3(2) o3 bad(2) ops s2(2) s1(2) s0(5) gone)
  have n3: "\<not> SENSOR_MAX_RETRY_COUNT \<le> retry_count w3 + 1"
    by (simp add: k3(1) word_le_nat_alt)
  note s4 = timeout_counted [OF e3 t3 n3, folded w4_def]
  show "retry_count world_lost = 0" by (rule s0(3))
  show "cycle_failed world_lost" by (rule timeout_failed [OF e0 t0])
  show "cycle_failed (SensorAcqTask_cycles 1 world_lost)"
    unfolding c1 by (rule timeout_failed [OF e1 t1])
  show "cycle_failed (SensorAcqTask_cycles 2 world_lost)"
    unfolding c2 by (rule f2)
  show "cycle_failed (SensorAcqTask_cycles 3 world_lost)"
    unfolding c3 by (rule timeout_failed [OF e3 t3])
  show "init_attempts world_lost = 1" by (rule s0(9))
  show "init_attempts (SensorAcqTask_cycles 2 world_lost) = 1"
    unfolding c2 by (simp add: s2(5) s1(5) s0(9))
  show "init_attempts (SensorAcqTask_cycles 3 world_lost) = 2"
    unfolding c3 by (simp add: k3(2) s2(5) s1(5) s0(9))
  show "init_attempts (SensorAcqTask_cycles 4 world_lost) = 2"
    unfolding c4 by (simp add: s4(5) k3(2) s2(5) s1(5) s0(9))
  show "state (xSensorStats (SensorAcqTask_cycles 3 world_lost)) = SENSOR_ACQ_ERROR"
    unfolding c3 by (rule x3(1))
  show "retry_count (SensorAcqTask_cycles 4 world_lost) = 1"
    unfolding c4 by (simp add: s4(4) k3(1))
qed

text \<open>
  C2 as stated fails: on the lost bus, starting with the counter at 0, four cycles in a row
  fail. After the third the state is \<open>SENSOR_ACQ_ERROR\<close> and the reinitialization has been
  attempted, within that third cycle (the count of attempts went from the 1 of the start-up
  to 2); the very next cycle attempts none: the count is still 2 after it, and the counter
  of consecutive failures is at 1.
\<close>

theorem C2_next_cycle_counterexample:
  "retry_count world_lost = 0 \<and>
   cycle_failed world_lost \<and>
   cycle_failed (SensorAcqTask_cycles 1 world_lost) \<and>
   cycle_failed (SensorAcqTask_cycles 2 world_lost) \<and>
   cycle_failed (SensorAcqTask_cycles 3 world_lost) \<and>
   init_attempts (SensorAcqTask_cycles 2 world_lost) = 1 \<and>
   init_attempts (SensorAcqTask_cycles 3 world_lost) = 2 \<and>
   state (xSensorStats (SensorAcqTask_cycles 3 world_lost)) = SENSOR_ACQ_ERROR \<and>
   init_attempts (SensorAcqTask_cycles 4 world_lost) = 2 \<and>
   retry_count (SensorAcqTask_cycles 4 world_lost) = 1"
  using lost_cycles by simp

end
